theory Spec2Isabelle
  imports Main
begin

section \<open>Values\<close>

text \<open>
  A field of a request (\<open>req.body.firstName\<close>, \<open>req.query.firstName\<close>, ...) holds a
  JavaScript value. \<open>VUndefined\<close> is what reading an absent key gives. A number is
  represented by its \<open>String(n)\<close> rendering (\<open>''7''\<close>, \<open>''0''\<close>, \<open>''1.5''\<close>, \<open>''NaN''\<close>),
  which determines it. The values are the scalar ones: what express-validator reports for
  a field that holds an array or an object differs between its releases, and the
  release in use is not named in the source.
\<close>

datatype jsval = VUndefined | VNull | VBool bool | VNum string | VStr string

text \<open>\<open>!!value\<close>\<close>

fun truthy :: "jsval \<Rightarrow> bool" where
  "truthy VUndefined = False"
| "truthy VNull = False"
| "truthy (VBool b) = b"
| "truthy (VNum n) = (n \<noteq> ''0'' \<and> n \<noteq> ''NaN'')"
| "truthy (VStr s) = (s \<noteq> '''')"

text \<open>\<open>typeof value === 'string'\<close>\<close>

fun is_string :: "jsval \<Rightarrow> bool" where
  "is_string (VStr s) = True"
| "is_string v = False"

text \<open>
  The string that express-validator hands to a validator.js predicate: \<open>''''\<close> for
  \<open>null\<close>, \<open>undefined\<close> and \<open>NaN\<close>, and \<open>String(value)\<close> otherwise.
\<close>

fun toString :: "jsval \<Rightarrow> string" where
  "toString VUndefined = ''''"
| "toString VNull = ''''"
| "toString (VBool b) = (if b then ''true'' else ''false'')"
| "toString (VNum n) = (if n = ''NaN'' then '''' else n)"
| "toString (VStr s) = s"

text \<open>Values sent in a response or held in a row of the store.\<close>

datatype json = JNull | JInt int | JString string | JArr "json list" | JObj "(string \<times> json) list"

section \<open>Requests\<close>

text \<open>
  The places of a request that hold named fields: \<open>req.body\<close>, \<open>req.cookies\<close>,
  \<open>req.headers\<close>, \<open>req.params\<close> and \<open>req.query\<close>, in the order in which
  express-validator goes through them.
\<close>

datatype location = Body | Cookies | Headers | Params | Query

record verror =
  msg :: string
  param :: string
  "value" :: jsval
  location :: location

text \<open>A model instance as the handlers see it: the selected columns and their values.\<close>

type_synonym "instance" = "(string \<times> json) list"

record request =
  body :: "string \<Rightarrow> jsval"
  cookies :: "string \<Rightarrow> jsval"
  headers :: "string \<Rightarrow> jsval"
  params :: "string \<Rightarrow> jsval"
  query :: "string \<Rightarrow> jsval"
  currentUser :: "instance option"
  validation_errors :: "verror list"

text \<open>Header names are lower case in \<open>req.headers\<close>; \<open>toLowerCase\<close> on ASCII letters.\<close>

definition toLowerCase :: "string \<Rightarrow> string" where
  "toLowerCase s =
     map (\<lambda>c. case map_of (zip ''ABCDEFGHIJKLMNOPQRSTUVWXYZ'' ''abcdefghijklmnopqrstuvwxyz'') c of
                None \<Rightarrow> c | Some l \<Rightarrow> l) s"

fun field_value :: "request \<Rightarrow> location \<Rightarrow> string \<Rightarrow> jsval" where
  "field_value req Body f = body req f"
| "field_value req Cookies f = cookies req f"
| "field_value req Headers f = headers req (toLowerCase f)"
| "field_value req Params f = params req f"
| "field_value req Query f = query req f"

section \<open>validator.js predicates\<close>

text \<open>\<open>isAlpha(str)\<close> with the default locale: \<open>/^[A-Z]+$/i\<close>.\<close>

definition isAlpha :: "string \<Rightarrow> bool" where
  "isAlpha s = (s \<noteq> [] \<and>
     list_all (\<lambda>c. c \<in> set ''ABCDEFGHIJKLMNOPQRSTUVWXYZabcdefghijklmnopqrstuvwxyz'') s)"

text \<open>
  \<open>isInt(str, { allow_leading_zeroes: false })\<close>: \<open>/^(?:[-+]?(?:0|[1-9][0-9]*))$/\<close>;
  with leading zeroes allowed: \<open>/^[-+]?[0-9]+$/\<close>.
\<close>

definition unsigned :: "string \<Rightarrow> string" where
  "unsigned s = (case s of [] \<Rightarrow> [] | c # r \<Rightarrow> if c = CHR ''-'' \<or> c = CHR ''+'' then r else s)"

definition isInt :: "bool \<Rightarrow> string \<Rightarrow> bool" where
  "isInt allow_leading_zeroes s =
     (case unsigned s of
        [] \<Rightarrow> False
      | d # ds \<Rightarrow>
          if allow_leading_zeroes then list_all (\<lambda>c. c \<in> set ''0123456789'') (d # ds)
          else (d = CHR ''0'' \<and> ds = []) \<or>
               (d \<in> set ''123456789'' \<and> list_all (\<lambda>c. c \<in> set ''0123456789'') ds))"

section \<open>express-validator chains\<close>

text \<open>
  A chain names a field, the places of the request where the field is looked for, and the
  items added to it in order. A validator carries its predicate on a value and its
  message; \<open>.if(chain)\<close> is a condition.

  Running a chain first selects the instances of its field: one per place. When there
  are several places, only the instances whose value is not \<open>undefined\<close> are kept, or the
  first one when all are \<open>undefined\<close>. Then every item is run in order, each on every
  instance: a validator that fails on an instance records one error and the run goes on;
  a condition whose chain reports an error stops the run of the chain it guards. Nothing
  in the source calls \<open>.bail()\<close>.
\<close>

datatype item = Validator "jsval \<Rightarrow> bool" string | Condition "location list" string "item list"

datatype chain = Chain "location list" string "item list"

text \<open>
  \<open>check(field)\<close> looks for the field in all five places; \<open>body(field)\<close> in
  \<open>req.body\<close> only.
\<close>

definition check :: "string \<Rightarrow> chain" where
  "check f = Chain [Body, Cookies, Headers, Params, Query] f []"

definition body_chain :: "string \<Rightarrow> chain" where
  "body_chain f = Chain [Body] f []"

fun add_item :: "item \<Rightarrow> chain \<Rightarrow> chain" where
  "add_item i (Chain locs f its) = Chain locs f (its @ [i])"

text \<open>\<open>.exists({checkNull, checkFalsy})\<close>; \<open>.exists()\<close> is \<open>exists_v False False\<close>.\<close>

definition exists_v :: "bool \<Rightarrow> bool \<Rightarrow> chain \<Rightarrow> chain" where
  "exists_v checkNull checkFalsy =
     add_item (Validator
       (if checkFalsy then truthy
        else if checkNull then (\<lambda>v. v \<noteq> VUndefined \<and> v \<noteq> VNull)
        else (\<lambda>v. v \<noteq> VUndefined))
       ''Invalid value'')"

definition isAlpha_v :: "chain \<Rightarrow> chain" where
  "isAlpha_v = add_item (Validator (\<lambda>v. isAlpha (toString v)) ''Invalid value'')"

definition isEmail_v :: "(string \<Rightarrow> bool) \<Rightarrow> chain \<Rightarrow> chain" where
  "isEmail_v isEmail = add_item (Validator (\<lambda>v. isEmail (toString v)) ''Invalid value'')"

definition isInt_v :: "bool \<Rightarrow> chain \<Rightarrow> chain" where
  "isInt_v allow_leading_zeroes =
     add_item (Validator (\<lambda>v. isInt allow_leading_zeroes (toString v)) ''Invalid value'')"

definition isString_v :: "chain \<Rightarrow> chain" where
  "isString_v = add_item (Validator is_string ''Invalid value'')"

fun if_v :: "chain \<Rightarrow> chain \<Rightarrow> chain" where
  "if_v (Chain locs g cits) c = add_item (Condition locs g cits) c"

text \<open>\<open>.withMessage(m)\<close> sets the message of the validator added last.\<close>

fun set_message :: "string \<Rightarrow> item \<Rightarrow> item" where
  "set_message m (Validator p old) = Validator p m"
| "set_message m (Condition locs g cits) = Condition locs g cits"

fun withMessage :: "string \<Rightarrow> chain \<Rightarrow> chain" where
  "withMessage m (Chain locs f its) =
     (if its = [] then Chain locs f its
      else Chain locs f (butlast its @ [set_message m (last its)]))"

definition selectFields :: "request \<Rightarrow> location list \<Rightarrow> string \<Rightarrow> (location \<times> jsval) list" where
  "selectFields req locs f = map (\<lambda>l. (l, field_value req l f)) locs"

definition getData :: "(location \<times> jsval) list \<Rightarrow> (location \<times> jsval) list" where
  "getData instances =
     (if length instances > 1
      then (let withValue = filter (\<lambda>i. snd i \<noteq> VUndefined) instances
            in if withValue \<noteq> [] then withValue else take 1 instances)
      else instances)"

definition run_validator ::
  "(jsval \<Rightarrow> bool) \<Rightarrow> string \<Rightarrow> string \<Rightarrow> location \<times> jsval \<Rightarrow> verror list" where
  "run_validator p m f i =
     (if p (snd i) then [] else [\<lparr>msg = m, param = f, value = snd i, location = fst i\<rparr>])"

fun run_items :: "request \<Rightarrow> string \<Rightarrow> (location \<times> jsval) list \<Rightarrow> item list \<Rightarrow> verror list" where
  "run_items req f live [] = []"
| "run_items req f live (Validator p m # its) =
     concat (map (run_validator p m f) live) @ run_items req f live its"
| "run_items req f live (Condition locs g cits # its) =
     (if run_items req g (getData (selectFields req locs g)) cits = []
      then run_items req f live its else [])"

fun run_chain :: "request \<Rightarrow> chain \<Rightarrow> verror list" where
  "run_chain req (Chain locs f its) = run_items req f (getData (selectFields req locs f)) its"

text \<open>The two rule lists of the source, in declaration order.\<close>

definition userValidationChain :: "(string \<Rightarrow> bool) \<Rightarrow> chain list" where
  "userValidationChain isEmail =
    [ withMessage ''firstName must be a string, with only alpha characters''
        (isAlpha_v
          (withMessage ''You must provide a first name for the user using the key firstName''
            (exists_v True True (check ''firstName'')))),
      withMessage ''lastName must be a string, with only alpha characters''
        (isAlpha_v
          (withMessage ''You must provide a last name for the user using the key lastName''
            (exists_v True True (check ''lastName'')))),
      withMessage ''You must provide a valid email address''
        (isEmail_v isEmail
          (withMessage ''You must provide an email address for the user using the key emailAddress''
            (exists_v True True (check ''emailAddress'')))),
      withMessage ''You must provide a password for the user using the key password''
        (exists_v True True (check ''password'')) ]"

definition courseValidationChain :: "chain list" where
  "courseValidationChain =
    [ withMessage ''The title must be a string''
        (isString_v
          (withMessage ''You must provide a title for the course with the key title''
            (exists_v True True (check ''title'')))),
      withMessage ''The description must be a string (it is a text field)''
        (isString_v
          (withMessage ''You must provide a description for the course with the key description''
            (exists_v True True (check ''description'')))),
      withMessage ''If you provide information for estimatedTime, it should be in string format''
        (isString_v
          (if_v (exists_v False False (body_chain ''estimatedTime''))
            (body_chain ''estimatedTime''))),
      withMessage ''If you provide information about the materialsNeeded, it should be in string format''
        (isString_v
          (if_v (exists_v False False (body_chain ''materialsNeeded''))
            (body_chain ''materialsNeeded''))),
      withMessage ''You must provide a valid userId''
        (isInt_v False
          (withMessage ''You must provide the id of the user this course belongs to''
            (exists_v True True (check ''userId'')))) ]"

section \<open>Rows and responses\<close>

record exn =
  name :: string
  message :: string

text \<open>The \<open>User\<close> model of the source; Sequelize's timestamps are left out.\<close>

record user =
  user_id :: int
  firstName :: string
  lastName :: string
  emailAddress :: string
  password :: string

text \<open>
  Modelled from the spec: the \<open>Course\<close> model (\<open>models/course.js\<close> is not among the
  sources): id, title, description, optional estimatedTime, optional materialsNeeded, and
  the owner reference \<open>userId\<close>.
\<close>

record course =
  course_id :: int
  title :: string
  description :: string
  estimatedTime :: "string option"
  materialsNeeded :: "string option"
  userId :: int

definition user_columns :: "user \<Rightarrow> instance" where
  "user_columns u =
    [ (''id'', JInt (user_id u)),
      (''firstName'', JString (firstName u)),
      (''lastName'', JString (lastName u)),
      (''emailAddress'', JString (emailAddress u)),
      (''password'', JString (password u)) ]"

definition json_opt :: "string option \<Rightarrow> json" where
  "json_opt x = (case x of None \<Rightarrow> JNull | Some s \<Rightarrow> JString s)"

definition course_columns :: "course \<Rightarrow> instance" where
  "course_columns c =
    [ (''id'', JInt (course_id c)),
      (''title'', JString (title c)),
      (''description'', JString (description c)),
      (''estimatedTime'', json_opt (estimatedTime c)),
      (''materialsNeeded'', json_opt (materialsNeeded c)),
      (''userId'', JInt (userId c)) ]"

text \<open>\<open>{attributes: [...]}\<close>: the named columns, in the order asked for.\<close>

definition select :: "string list \<Rightarrow> instance \<Rightarrow> instance" where
  "select attrs cols =
     concat (map (\<lambda>a. case map_of cols a of None \<Rightarrow> [] | Some v \<Rightarrow> [(a, v)]) attrs)"

text \<open>Reading a property of an instance; \<open>None\<close> is \<open>undefined\<close>.\<close>

definition get :: "instance \<Rightarrow> string \<Rightarrow> json option" where
  "get inst k = map_of inst k"

record credentials =
  cname :: string
  pass :: string

record response =
  status :: nat
  json :: json

text \<open>What the handlers pass to \<open>User.create\<close>, \<open>Course.create\<close> and \<open>course.update\<close>.\<close>

record user_values =
  uv_firstName :: jsval
  uv_lastName :: jsval
  uv_emailAddress :: jsval
  uv_password :: string

record course_values =
  cv_title :: jsval
  cv_description :: jsval
  cv_estimatedTime :: jsval
  cv_materialsNeeded :: jsval
  cv_userId :: jsval

section \<open>Collaborators\<close>

text \<open>
  The libraries the routes call are parameters: \<open>basic-auth\<close> on the Authorization
  header, \<open>bcryptjs\<close>, and validator.js's \<open>isEmail\<close>.
\<close>

record libs =
  auth_parse :: "string \<Rightarrow> credentials option"
  hashSync :: "jsval \<Rightarrow> exn + string"
  compareSync :: "string \<Rightarrow> string \<Rightarrow> bool"
  isEmail :: "string \<Rightarrow> bool"

text \<open>
  The persistence behind the Sequelize models is a parameter too: each call either throws
  or returns, a write returning the new store. \<open>'s\<close> is the store.
\<close>

record 's db =
  User_findAll :: "'s \<Rightarrow> exn + user list"
  User_create :: "'s \<Rightarrow> user_values \<Rightarrow> exn + user \<times> 's"
  Course_findAll :: "'s \<Rightarrow> exn + course list"
  Course_findByPk :: "'s \<Rightarrow> jsval \<Rightarrow> exn + course option"
  Course_create :: "'s \<Rightarrow> course_values \<Rightarrow> exn + course \<times> 's"
  Course_update :: "'s \<Rightarrow> course \<Rightarrow> course_values \<Rightarrow> exn + 's"
  Course_destroy :: "'s \<Rightarrow> course \<Rightarrow> exn + 's"

text \<open>
  What lives in the process besides the store: the console, and the two variables
  \<open>user\<close> and \<open>course\<close> that the create handlers assign without declaring them.
  The routes file does not ask for strict mode, so each assignment sets a global.
\<close>

record proc =
  g_user :: "user option"
  g_course :: "course option"
  console :: "string list"

type_synonym 's world = "proc \<times> 's"

section \<open>The request pipeline\<close>

text \<open>
  \<open>asyncHandler(cb)\<close>: a callback either throws or has sent a response; what it throws
  is caught and answered with status 500.
\<close>

definition error_response :: "exn \<Rightarrow> response" where
  "error_response error =
     \<lparr>status = 500,
      json = JObj [ (''message'', JString ''Sorry, there was an error''),
                    (''name'', JString (name error)),
                    (''description'', JString (message error)) ]\<rparr>"

definition asyncHandler ::
  "(request \<Rightarrow> 'w \<Rightarrow> (exn + response) \<times> 'w) \<Rightarrow> request \<Rightarrow> 'w \<Rightarrow> response \<times> 'w" where
  "asyncHandler cb req w =
     (case cb req w of
        (Inr res, w') \<Rightarrow> (res, w')
      | (Inl error, w') \<Rightarrow> (error_response error, w'))"

text \<open>
  A middleware answers the request, hands it on with \<open>next()\<close>, or throws outside any
  handler, in which case nothing is sent.
\<close>

datatype outcome = Sent response | Next request | Rejected exn

definition message_json :: "string \<Rightarrow> json" where
  "message_json m = JObj [(''message'', JString m)]"

text \<open>
  \<open>auth(req)\<close> reads \<open>req.headers.authorization\<close>: no header, or one that does not
  parse, gives no credentials.
\<close>

definition auth :: "libs \<Rightarrow> request \<Rightarrow> credentials option" where
  "auth L req = (case headers req ''authorization'' of VStr h \<Rightarrow> auth_parse L h | _ \<Rightarrow> None)"

text \<open>\<open>User.findAll({attributes})\<close>\<close>

definition findAll :: "'s db \<Rightarrow> 's \<Rightarrow> string list \<Rightarrow> exn + instance list" where
  "findAll db s attrs =
     (case User_findAll db s of
        Inl e \<Rightarrow> Inl e
      | Inr rows \<Rightarrow> Inr (map (\<lambda>u. select attrs (user_columns u)) rows))"

text \<open>\<open>bcryptjs.compareSync(s, hash)\<close> throws unless the hash is a string.\<close>

definition compare :: "libs \<Rightarrow> string \<Rightarrow> json option \<Rightarrow> exn + bool" where
  "compare L s h =
     (case h of
        Some (JString hash) \<Rightarrow> Inr (compareSync L s hash)
      | _ \<Rightarrow> Inl \<lparr>name = ''Error'', message = ''Illegal arguments''\<rparr>)"

definition log :: "string \<Rightarrow> 's world \<Rightarrow> 's world" where
  "log line w = ((fst w)\<lparr>console := console (fst w) @ [line]\<rparr>, snd w)"

definition authenticationFunc :: "libs \<Rightarrow> 's db \<Rightarrow> request \<Rightarrow> 's world \<Rightarrow> outcome \<times> 's world" where
  "authenticationFunc L db req w =
     (case auth L req of
        Some credentials \<Rightarrow>
          (case findAll db (snd w) [''id'', ''emailAddress'', ''password''] of
             Inl e \<Rightarrow> (Rejected e, w)
           | Inr users \<Rightarrow>
               (case find (\<lambda>user. get user ''emailAddress'' = Some (JString (cname credentials))) users of
                  Some matchedUser \<Rightarrow>
                    (case compare L (pass credentials) (get matchedUser ''password'') of
                       Inl e \<Rightarrow> (Rejected e, w)
                     | Inr authenticated \<Rightarrow>
                         if authenticated
                         then (Next (req\<lparr>currentUser := Some matchedUser\<rparr>),
                               log (''Authentication successful for username: '' @
                                      (case get matchedUser ''emailAddress'' of
                                         Some (JString e) \<Rightarrow> e | _ \<Rightarrow> ''undefined'')) w)
                         else (Sent \<lparr>status = 403,
                                 json = message_json
                                   ''Forbidden: The password did not match the user credential.''\<rparr>, w))
                | None \<Rightarrow>
                    (Sent \<lparr>status = 403,
                       json = message_json ''Forbidden: No user matches the credential provided.''\<rparr>, w)))
      | None \<Rightarrow>
          (Sent \<lparr>status = 401,
             json = message_json
               ''Unauthorized: No credentials provided in the WWW-authenticate header.''\<rparr>, w))"

text \<open>
  A rule list used as middleware runs each chain on the request and keeps the errors in
  it; \<open>validationResult(req)\<close> reads them back.
\<close>

definition validation :: "chain list \<Rightarrow> request \<Rightarrow> 'w \<Rightarrow> outcome \<times> 'w" where
  "validation rules req w =
     (Next (req\<lparr>validation_errors :=
               validation_errors req @ concat (map (run_chain req) rules)\<rparr>), w)"

definition validationResult :: "request \<Rightarrow> verror list" where
  "validationResult req = validation_errors req"

definition errors_response :: "verror list \<Rightarrow> response" where
  "errors_response errors =
     \<lparr>status = 400, json = JObj [(''errors'', JArr (map (\<lambda>error. JString (msg error)) errors))]\<rparr>"

subsection \<open>Route callbacks\<close>

definition get_root :: "request \<Rightarrow> 's world \<Rightarrow> (exn + response) \<times> 's world" where
  "get_root req w = (Inr \<lparr>status = 200, json = message_json ''Welcome to the API''\<rparr>, w)"

definition get_users :: "'s db \<Rightarrow> request \<Rightarrow> 's world \<Rightarrow> (exn + response) \<times> 's world" where
  "get_users db req w =
     (case findAll db (snd w) [''id'', ''firstName'', ''lastName'', ''emailAddress''] of
        Inl e \<Rightarrow> (Inl e, w)
      | Inr users \<Rightarrow> (Inr \<lparr>status = 200, json = JArr (map JObj users)\<rparr>, w))"

definition new_user :: "request \<Rightarrow> string \<Rightarrow> user_values" where
  "new_user req hash =
     \<lparr>uv_firstName = body req ''firstName'',
      uv_lastName = body req ''lastName'',
      uv_emailAddress = body req ''emailAddress'',
      uv_password = hash\<rparr>"

definition post_users :: "libs \<Rightarrow> 's db \<Rightarrow> request \<Rightarrow> 's world \<Rightarrow> (exn + response) \<times> 's world" where
  "post_users L db req w =
     (let errors = validationResult req in
      if errors \<noteq> [] then (Inr (errors_response errors), w)
      else
        (case hashSync L (body req ''password'') of
           Inl error \<Rightarrow> (Inr (error_response error), w)
         | Inr hash \<Rightarrow>
             (case User_create db (snd w) (new_user req hash) of
                Inl error \<Rightarrow> (Inr (error_response error), w)
              | Inr (created, s') \<Rightarrow>
                  (Inr \<lparr>status = 201, json = message_json ''Successfully created new user.''\<rparr>,
                   ((fst w)\<lparr>g_user := Some created\<rparr>, s')))))"

definition get_courses :: "'s db \<Rightarrow> request \<Rightarrow> 's world \<Rightarrow> (exn + response) \<times> 's world" where
  "get_courses db req w =
     (case Course_findAll db (snd w) of
        Inl e \<Rightarrow> (Inl e, w)
      | Inr cs \<Rightarrow> (Inr \<lparr>status = 200, json = JArr (map (\<lambda>c. JObj (course_columns c)) cs)\<rparr>, w))"

definition get_course :: "'s db \<Rightarrow> request \<Rightarrow> 's world \<Rightarrow> (exn + response) \<times> 's world" where
  "get_course db req w =
     (case Course_findByPk db (snd w) (params req ''id'') of
        Inl e \<Rightarrow> (Inl e, w)
      | Inr (Some c) \<Rightarrow> (Inr \<lparr>status = 200, json = JObj (course_columns c)\<rparr>, w)
      | Inr None \<Rightarrow>
          (Inr \<lparr>status = 404, json = message_json ''There are no courses with that id.''\<rparr>, w))"

definition body_values :: "request \<Rightarrow> course_values" where
  "body_values req =
     \<lparr>cv_title = body req ''title'',
      cv_description = body req ''description'',
      cv_estimatedTime = body req ''estimatedTime'',
      cv_materialsNeeded = body req ''materialsNeeded'',
      cv_userId = body req ''userId''\<rparr>"

definition post_courses :: "'s db \<Rightarrow> request \<Rightarrow> 's world \<Rightarrow> (exn + response) \<times> 's world" where
  "post_courses db req w =
     (let errors = validationResult req in
      if errors \<noteq> [] then (Inr (errors_response errors), w)
      else
        (case Course_create db (snd w) (body_values req) of
           Inl error \<Rightarrow> (Inr (error_response error), w)
         | Inr (created, s') \<Rightarrow>
             (Inr \<lparr>status = 201, json = message_json ''Successfully created course''\<rparr>,
              ((fst w)\<lparr>g_course := Some created\<rparr>, s'))))"

definition put_course :: "'s db \<Rightarrow> request \<Rightarrow> 's world \<Rightarrow> (exn + response) \<times> 's world" where
  "put_course db req w =
     (let errors = validationResult req in
      case Course_findByPk db (snd w) (params req ''id'') of
        Inl e \<Rightarrow> (Inl e, w)
      | Inr (Some c) \<Rightarrow>
          if errors \<noteq> [] then (Inr (errors_response errors), w)
          else
            (case Course_update db (snd w) c (body_values req) of
               Inl error \<Rightarrow> (Inr (error_response error), w)
             | Inr s' \<Rightarrow>
                 (Inr \<lparr>status = 204,
                       json = message_json ''Thank you. The record was successfully updated.''\<rparr>,
                  (fst w, s')))
      | Inr None \<Rightarrow>
          (Inr \<lparr>status = 404, json = message_json ''There are no courses with that id.''\<rparr>, w))"

definition delete_course :: "'s db \<Rightarrow> request \<Rightarrow> 's world \<Rightarrow> (exn + response) \<times> 's world" where
  "delete_course db req w =
     (case Course_findByPk db (snd w) (params req ''id'') of
        Inl e \<Rightarrow> (Inl e, w)
      | Inr (Some c) \<Rightarrow>
          (case Course_destroy db (snd w) c of
             Inl error \<Rightarrow> (Inr (error_response error), w)
           | Inr s' \<Rightarrow>
               (Inr \<lparr>status = 204, json = message_json ''The record was deleted.''\<rparr>, (fst w, s')))
      | Inr None \<Rightarrow>
          (Inr \<lparr>status = 404, json = message_json ''That course id does not exist.''\<rparr>, w))"

subsection \<open>Routes\<close>

text \<open>What the client gets: a response, or none when a middleware threw.\<close>

datatype reply = Reply response | NoReply exn

definition use ::
  "(request \<Rightarrow> 'w \<Rightarrow> outcome \<times> 'w) \<Rightarrow> (request \<Rightarrow> 'w \<Rightarrow> reply \<times> 'w) \<Rightarrow>
   request \<Rightarrow> 'w \<Rightarrow> reply \<times> 'w" where
  "use mw rest req w =
     (case mw req w of
        (Next req', w') \<Rightarrow> rest req' w'
      | (Sent res, w') \<Rightarrow> (Reply res, w')
      | (Rejected e, w') \<Rightarrow> (NoReply e, w'))"

definition endpoint ::
  "(request \<Rightarrow> 'w \<Rightarrow> (exn + response) \<times> 'w) \<Rightarrow> request \<Rightarrow> 'w \<Rightarrow> reply \<times> 'w" where
  "endpoint cb req w = (case asyncHandler cb req w of (res, w') \<Rightarrow> (Reply res, w'))"

datatype route =
  GET_root | GET_users | POST_users | GET_courses | GET_course | POST_courses
  | PUT_course | DELETE_course

fun apiRouter :: "libs \<Rightarrow> 's db \<Rightarrow> route \<Rightarrow> request \<Rightarrow> 's world \<Rightarrow> reply \<times> 's world" where
  "apiRouter L db GET_root = endpoint get_root"
| "apiRouter L db GET_users = use (authenticationFunc L db) (endpoint (get_users db))"
| "apiRouter L db POST_users =
     use (validation (userValidationChain (isEmail L))) (endpoint (post_users L db))"
| "apiRouter L db GET_courses = endpoint (get_courses db)"
| "apiRouter L db GET_course = endpoint (get_course db)"
| "apiRouter L db POST_courses =
     use (authenticationFunc L db) (use (validation courseValidationChain) (endpoint (post_courses db)))"
| "apiRouter L db PUT_course =
     use (authenticationFunc L db) (use (validation courseValidationChain) (endpoint (put_course db)))"
| "apiRouter L db DELETE_course = use (authenticationFunc L db) (endpoint (delete_course db))"

section \<open>An in-memory persistence and stand-in libraries\<close>

text \<open>
  The theorems below hold for every persistence and every library. To run them at concrete
  requests there is a store that keeps its rows in insertion order, numbers them upwards,
  refuses a value of the wrong type (the columns of \<open>User\<close> do not allow null) and a
  course whose owner is not a stored user, and on update leaves a column alone when the
  value given for it is \<open>undefined\<close>; and small stand-ins for the three libraries.
\<close>

record store =
  users :: "user list"
  courses :: "course list"

definition digit_val :: "char \<Rightarrow> nat option" where
  "digit_val c = map_of (zip ''0123456789'' [0, 1, 2, 3, 4, 5, 6, 7, 8, 9]) c"

fun decimal :: "nat \<Rightarrow> string \<Rightarrow> nat option" where
  "decimal acc [] = Some acc"
| "decimal acc (c # cs) =
     (case digit_val c of None \<Rightarrow> None | Some d \<Rightarrow> decimal (10 * acc + d) cs)"

definition int_of_text :: "string \<Rightarrow> int option" where
  "int_of_text s =
     (if isInt True s
      then map_option (\<lambda>n. if take 1 s = ''-'' then - int n else int n) (decimal 0 (unsigned s))
      else None)"

fun as_string :: "jsval \<Rightarrow> string option" where
  "as_string (VStr s) = Some s"
| "as_string v = None"

fun as_opt_string :: "jsval \<Rightarrow> string option option" where
  "as_opt_string VUndefined = Some None"
| "as_opt_string VNull = Some None"
| "as_opt_string (VStr s) = Some (Some s)"
| "as_opt_string v = None"

fun as_int :: "jsval \<Rightarrow> int option" where
  "as_int (VNum n) = int_of_text n"
| "as_int (VStr s) = int_of_text s"
| "as_int v = None"

text \<open>On update, \<open>undefined\<close> keeps what the row has.\<close>

definition keep_or :: "'a \<Rightarrow> (jsval \<Rightarrow> 'a option) \<Rightarrow> jsval \<Rightarrow> 'a option" where
  "keep_or old read v = (if v = VUndefined then Some old else read v)"

definition next_id :: "int list \<Rightarrow> int" where
  "next_id ids = 1 + fold max ids 0"

definition validation_error :: exn where
  "validation_error = \<lparr>name = ''SequelizeValidationError'', message = ''Validation error''\<rparr>"

definition foreign_key_error :: exn where
  "foreign_key_error =
     \<lparr>name = ''SequelizeForeignKeyConstraintError'', message = ''FOREIGN KEY constraint failed''\<rparr>"

definition mem_user_create :: "store \<Rightarrow> user_values \<Rightarrow> exn + user \<times> store" where
  "mem_user_create s v =
     (case (as_string (uv_firstName v), as_string (uv_lastName v), as_string (uv_emailAddress v)) of
        (Some f, Some l, Some e) \<Rightarrow>
          (let u = \<lparr>user_id = next_id (map user_id (users s)), firstName = f, lastName = l,
                    emailAddress = e, password = uv_password v\<rparr>
           in Inr (u, s\<lparr>users := users s @ [u]\<rparr>))
      | _ \<Rightarrow> Inl validation_error)"

definition mem_course_create :: "store \<Rightarrow> course_values \<Rightarrow> exn + course \<times> store" where
  "mem_course_create s v =
     (case (as_string (cv_title v), as_string (cv_description v),
            as_opt_string (cv_estimatedTime v), as_opt_string (cv_materialsNeeded v),
            as_int (cv_userId v)) of
        (Some t, Some d, Some e, Some m, Some u) \<Rightarrow>
          if u \<in> set (map user_id (users s))
          then (let c = \<lparr>course_id = next_id (map course_id (courses s)), title = t,
                         description = d, estimatedTime = e, materialsNeeded = m, userId = u\<rparr>
                in Inr (c, s\<lparr>courses := courses s @ [c]\<rparr>))
          else Inl foreign_key_error
      | _ \<Rightarrow> Inl validation_error)"

definition mem_course_update :: "store \<Rightarrow> course \<Rightarrow> course_values \<Rightarrow> exn + store" where
  "mem_course_update s c v =
     (case (keep_or (title c) as_string (cv_title v),
            keep_or (description c) as_string (cv_description v),
            keep_or (estimatedTime c) as_opt_string (cv_estimatedTime v),
            keep_or (materialsNeeded c) as_opt_string (cv_materialsNeeded v),
            keep_or (userId c) as_int (cv_userId v)) of
        (Some t, Some d, Some e, Some m, Some u) \<Rightarrow>
          if u \<in> set (map user_id (users s))
          then Inr (s\<lparr>courses :=
                 map (\<lambda>x. if course_id x = course_id c
                           then \<lparr>course_id = course_id c, title = t, description = d,
                                 estimatedTime = e, materialsNeeded = m, userId = u\<rparr>
                           else x)
                   (courses s)\<rparr>)
          else Inl foreign_key_error
      | _ \<Rightarrow> Inl validation_error)"

definition mem_course_findByPk :: "store \<Rightarrow> jsval \<Rightarrow> exn + course option" where
  "mem_course_findByPk s pk =
     (case as_int pk of
        None \<Rightarrow> Inr None
      | Some i \<Rightarrow> Inr (find (\<lambda>c. course_id c = i) (courses s)))"

definition mem_db :: "store db" where
  "mem_db =
     \<lparr>User_findAll = (\<lambda>s. Inr (users s)),
      User_create = mem_user_create,
      Course_findAll = (\<lambda>s. Inr (courses s)),
      Course_findByPk = mem_course_findByPk,
      Course_create = mem_course_create,
      Course_update = mem_course_update,
      Course_destroy =
        (\<lambda>s c. Inr (s\<lparr>courses := filter (\<lambda>x. course_id x \<noteq> course_id c) (courses s)\<rparr>))\<rparr>"

text \<open>The same store behind a connection that is down when the users are read.\<close>

definition connection_refused :: exn where
  "connection_refused =
     \<lparr>name = ''SequelizeConnectionRefusedError'', message = ''connect ECONNREFUSED''\<rparr>"

definition down_db :: "store db" where
  "down_db = mem_db\<lparr>User_findAll := (\<lambda>s. Inl connection_refused)\<rparr>"

text \<open>
  Stand-ins: credentials written \<open>name:pass\<close> in the clear; a hash that is one salt
  character followed by the secret; an email test that asks for an \<open>@\<close>.
\<close>

definition demo_parse :: "string \<Rightarrow> credentials option" where
  "demo_parse h =
     (if CHR '':'' \<in> set h
      then Some \<lparr>cname = takeWhile (\<lambda>c. c \<noteq> CHR '':'') h,
                 pass = tl (dropWhile (\<lambda>c. c \<noteq> CHR '':'') h)\<rparr>
      else None)"

definition salted_hash :: "char \<Rightarrow> jsval \<Rightarrow> exn + string" where
  "salted_hash salt v =
     (case v of
        VStr s \<Rightarrow> Inr (salt # s)
      | _ \<Rightarrow> Inl \<lparr>name = ''Error'', message = ''Illegal arguments''\<rparr>)"

definition demo_compare :: "string \<Rightarrow> string \<Rightarrow> bool" where
  "demo_compare s hash = (hash \<noteq> [] \<and> tl hash = s)"

definition demo_libs :: libs where
  "demo_libs =
     \<lparr>auth_parse = demo_parse, hashSync = salted_hash CHR ''$'', compareSync = demo_compare,
      isEmail = (\<lambda>s. CHR ''@'' \<in> set s)\<rparr>"

definition no_proc :: proc where
  "no_proc = \<lparr>g_user = None, g_course = None, console = []\<rparr>"

definition no_fields :: "string \<Rightarrow> jsval" where
  "no_fields = (\<lambda>k. VUndefined)"

text \<open>
  A request with an Authorization header or none, a route parameter \<open>id\<close> or none, a body,
  and nothing else.
\<close>

definition request_of :: "string option \<Rightarrow> string option \<Rightarrow> (string \<Rightarrow> jsval) \<Rightarrow> request" where
  "request_of h i b =
     \<lparr>body = b,
      cookies = no_fields,
      headers = (case h of None \<Rightarrow> no_fields | Some a \<Rightarrow> no_fields(''authorization'' := VStr a)),
      params = (case i of None \<Rightarrow> no_fields | Some t \<Rightarrow> no_fields(''id'' := VStr t)),
      query = no_fields,
      currentUser = None,
      validation_errors = []\<rparr>"

text \<open>A small school to run the routes on.\<close>

definition ann :: user where
  "ann = \<lparr>user_id = 1, firstName = ''Ann'', lastName = ''Lee'',
          emailAddress = ''ann@school.org'', password = ''$tulip''\<rparr>"

definition bob :: user where
  "bob = \<lparr>user_id = 2, firstName = ''Bob'', lastName = ''Ray'',
          emailAddress = ''bob@school.org'', password = ''$abc123''\<rparr>"

definition algebra :: course where
  "algebra = \<lparr>course_id = 1, title = ''Algebra'', description = ''Groups and rings'',
              estimatedTime = None, materialsNeeded = Some ''Paper'', userId = 1\<rparr>"

definition school :: store where
  "school = \<lparr>users = [ann, bob], courses = [algebra]\<rparr>"

definition as_bob :: "string option" where
  "as_bob = Some ''bob@school.org:abc123''"

definition timed_course :: "string \<Rightarrow> jsval" where
  "timed_course =
     no_fields(''title'' := VStr ''Logic'', ''description'' := VStr ''Proofs'',
               ''estimatedTime'' := VNum ''12'', ''userId'' := VNum ''1'')"


definition busy_proc :: proc where
  "busy_proc = \<lparr>g_user = Some bob, g_course = Some algebra,
                 console = [''Authentication successful for username: ann@school.org'']\<rparr>"

definition no_first_name :: "string \<Rightarrow> jsval" where
  "no_first_name =
     no_fields(''lastName'' := VStr ''Diaz'', ''emailAddress'' := VStr ''cleo@school.org'',
               ''password'' := VStr ''crocus'')"

definition second_bob :: "string \<Rightarrow> jsval" where
  "second_bob =
     no_fields(''firstName'' := VStr ''Bobby'', ''lastName'' := VStr ''Ray'',
               ''emailAddress'' := VStr ''bob@school.org'', ''password'' := VStr ''crocus'')"

definition cleo :: "string \<Rightarrow> jsval" where
  "cleo =
     no_fields(''firstName'' := VStr ''Cleo'', ''lastName'' := VStr ''Diaz'',
               ''emailAddress'' := VStr ''cleo@school.org'', ''password'' := VStr ''crocus'')"

text \<open>
  \<open>POST /users?firstName=Ann\<close> with a body that has no \<open>firstName\<close>; and a body whose
  \<open>firstName\<close> is \<open>''Cleo1''\<close>, sent with \<open>?firstName=Cleo2\<close>.
\<close>

definition first_name_in_query :: request where
  "first_name_in_query =
     (request_of None None no_first_name)\<lparr>query := no_fields(''firstName'' := VStr ''Ann'')\<rparr>"

definition first_name_twice :: request where
  "first_name_twice =
     (request_of None None (cleo(''firstName'' := VStr ''Cleo1'')))
       \<lparr>query := no_fields(''firstName'' := VStr ''Cleo2'')\<rparr>"

section \<open>Predicates used in the statements\<close>

text \<open>A field is carried by the body alone when no other place of the request has it.\<close>

definition elsewhere_absent :: "request \<Rightarrow> string \<Rightarrow> bool" where
  "elsewhere_absent req f =
     (cookies req f = VUndefined \<and> headers req (toLowerCase f) = VUndefined \<and>
      params req f = VUndefined \<and> query req f = VUndefined)"

text \<open>The routes that start with \<open>authenticationFunc\<close>.\<close>

fun gated :: "route \<Rightarrow> bool" where
  "gated GET_users = True"
| "gated POST_courses = True"
| "gated PUT_course = True"
| "gated DELETE_course = True"
| "gated r = False"

text \<open>
  A stage of the pipeline ignores the process when neither what it yields nor the store it
  leaves depends on the process it is started in.
\<close>

definition ignores_proc :: "(request \<Rightarrow> proc \<times> 's \<Rightarrow> 'a \<times> proc \<times> 's) \<Rightarrow> bool" where
  "ignores_proc f =
     (\<forall>req p p' s. fst (f req (p, s)) = fst (f req (p', s)) \<and>
                   snd (snd (f req (p, s))) = snd (snd (f req (p', s))))"

text \<open>
  Two rows are the same but for the secret when they agree on every other column and the
  given verdict on their stored hashes is the same. The verdict of a request on a hash is
  what \<open>compareSync\<close> says of the request's secret and that hash.
\<close>

definition verdict :: "libs \<Rightarrow> request \<Rightarrow> string \<Rightarrow> bool" where
  "verdict L req hash =
     (case auth L req of None \<Rightarrow> False | Some c \<Rightarrow> compareSync L (pass c) hash)"

definition same_but_secret :: "(string \<Rightarrow> bool) \<Rightarrow> user \<Rightarrow> user \<Rightarrow> bool" where
  "same_but_secret v u u' =
     (user_id u' = user_id u \<and> firstName u' = firstName u \<and> lastName u' = lastName u \<and>
      emailAddress u' = emailAddress u \<and> v (password u') = v (password u))"

text \<open>
  Two outcomes of hashing or of creating a user are alike when both throw the same error
  or both return.
\<close>

definition alike :: "exn + 'a \<Rightarrow> exn + 'b \<Rightarrow> bool" where
  "alike x y = (case (x, y) of (Inl e, Inl e') \<Rightarrow> e = e' | (Inr a, Inr b) \<Rightarrow> True | _ \<Rightarrow> False)"

definition ignores_user :: "(request \<Rightarrow> 'w \<Rightarrow> 'a) \<Rightarrow> bool" where
  "ignores_user f = (\<forall>req x w. f (req\<lparr>currentUser := x\<rparr>) w = f req w)"

definition resalted :: "store \<Rightarrow> exn + user list" where
  "resalted s =
     Inr (map (\<lambda>u. u\<lparr>password := (if password u = [] then [] else CHR ''#'' # tl (password u))\<rparr>)
            (users s))"

section \<open>Lemmas\<close>

subsection \<open>The rule lists, evaluated\<close>

lemma userValidationChain_items:
  "userValidationChain E =
    [ Chain [Body, Cookies, Headers, Params, Query] ''firstName''
        [ Validator truthy ''You must provide a first name for the user using the key firstName'',
          Validator (\<lambda>v. isAlpha (toString v)) ''firstName must be a string, with only alpha characters'' ],
      Chain [Body, Cookies, Headers, Params, Query] ''lastName''
        [ Validator truthy ''You must provide a last name for the user using the key lastName'',
          Validator (\<lambda>v. isAlpha (toString v)) ''lastName must be a string, with only alpha characters'' ],
      Chain [Body, Cookies, Headers, Params, Query] ''emailAddress''
        [ Validator truthy ''You must provide an email address for the user using the key emailAddress'',
          Validator (\<lambda>v. E (toString v)) ''You must provide a valid email address'' ],
      Chain [Body, Cookies, Headers, Params, Query] ''password''
        [ Validator truthy ''You must provide a password for the user using the key password'' ] ]"
  by (simp add: userValidationChain_def check_def exists_v_def isAlpha_v_def isEmail_v_def)

lemma courseValidationChain_items:
  "courseValidationChain =
    [ Chain [Body, Cookies, Headers, Params, Query] ''title''
        [ Validator truthy ''You must provide a title for the course with the key title'',
          Validator is_string ''The title must be a string'' ],
      Chain [Body, Cookies, Headers, Params, Query] ''description''
        [ Validator truthy ''You must provide a description for the course with the key description'',
          Validator is_string ''The description must be a string (it is a text field)'' ],
      Chain [Body] ''estimatedTime''
        [ Condition [Body] ''estimatedTime'' [Validator (\<lambda>v. v \<noteq> VUndefined) ''Invalid value''],
          Validator is_string
            ''If you provide information for estimatedTime, it should be in string format'' ],
      Chain [Body] ''materialsNeeded''
        [ Condition [Body] ''materialsNeeded'' [Validator (\<lambda>v. v \<noteq> VUndefined) ''Invalid value''],
          Validator is_string
            ''If you provide information about the materialsNeeded, it should be in string format'' ],
      Chain [Body, Cookies, Headers, Params, Query] ''userId''
        [ Validator truthy ''You must provide the id of the user this course belongs to'',
          Validator (\<lambda>v. isInt False (toString v)) ''You must provide a valid userId'' ] ]"
  by (simp add: courseValidationChain_def check_def body_chain_def exists_v_def isString_v_def
      isInt_v_def)

text \<open>The instances of a field: of a \<open>body\<close> chain, and of a \<open>check\<close> chain when the body alone has it.\<close>

lemma body_instances: "getData (selectFields req [Body] f) = [(Body, body req f)]"
  by (simp add: getData_def selectFields_def)

lemma check_instances:
  assumes "elsewhere_absent req f"
  shows "getData (selectFields req [Body, Cookies, Headers, Params, Query] f) = [(Body, body req f)]"
  using assms by (simp add: getData_def selectFields_def elsewhere_absent_def)

text \<open>A rule of one or two checks, run on the instances of its field.\<close>

lemma run_two_checks:
  "map msg (run_items req f live [Validator p m, Validator p' m']) =
     concat (map (\<lambda>i. if p (snd i) then [] else [m]) live) @
     concat (map (\<lambda>i. if p' (snd i) then [] else [m']) live)"
  by (simp add: run_validator_def map_concat comp_def if_distrib cong: if_cong)

lemma run_one_check:
  "map msg (run_items req f live [Validator p m]) =
     concat (map (\<lambda>i. if p (snd i) then [] else [m]) live)"
  by (simp add: run_validator_def map_concat comp_def if_distrib cong: if_cong)

lemma run_two_checks_Nil:
  "run_items req f live [Validator p m, Validator p' m'] = [] \<longleftrightarrow>
     (\<forall>i \<in> set live. p (snd i) \<and> p' (snd i))"
  by (auto simp: run_validator_def)

lemma run_one_check_Nil:
  "run_items req f live [Validator p m] = [] \<longleftrightarrow> (\<forall>i \<in> set live. p (snd i))"
  by (auto simp: run_validator_def)

lemma run_optional:
  "map msg (run_chain req (Chain [Body] f
      [Condition [Body] f [Validator (\<lambda>v. v \<noteq> VUndefined) ''Invalid value''],
       Validator is_string m])) =
     (if body req f = VUndefined \<or> is_string (body req f) then [] else [m])"
  by (simp add: body_instances run_validator_def)

lemma run_optional_Nil:
  "run_chain req (Chain [Body] f
      [Condition [Body] f [Validator (\<lambda>v. v \<noteq> VUndefined) ''Invalid value''],
       Validator is_string m]) = [] \<longleftrightarrow>
     body req f = VUndefined \<or> is_string (body req f)"
  by (simp add: body_instances run_validator_def)

lemma user_messages:
  assumes "elsewhere_absent req ''firstName''" and "elsewhere_absent req ''lastName''"
    and "elsewhere_absent req ''emailAddress''" and "elsewhere_absent req ''password''"
  shows "map msg (concat (map (run_chain req) (userValidationChain E))) =
     (if truthy (body req ''firstName'') then []
      else [''You must provide a first name for the user using the key firstName'']) @
     (if isAlpha (toString (body req ''firstName'')) then []
      else [''firstName must be a string, with only alpha characters'']) @
     (if truthy (body req ''lastName'') then []
      else [''You must provide a last name for the user using the key lastName'']) @
     (if isAlpha (toString (body req ''lastName'')) then []
      else [''lastName must be a string, with only alpha characters'']) @
     (if truthy (body req ''emailAddress'') then []
      else [''You must provide an email address for the user using the key emailAddress'']) @
     (if E (toString (body req ''emailAddress'')) then []
      else [''You must provide a valid email address'']) @
     (if truthy (body req ''password'') then []
      else [''You must provide a password for the user using the key password''])"
  by (simp add: userValidationChain_items check_instances [OF assms(1)]
      check_instances [OF assms(2)] check_instances [OF assms(3)] check_instances [OF assms(4)]
      run_validator_def)

lemma course_messages:
  assumes "elsewhere_absent req ''title''" and "elsewhere_absent req ''description''"
    and "elsewhere_absent req ''userId''"
  shows "map msg (concat (map (run_chain req) courseValidationChain)) =
     (if truthy (body req ''title'') then []
      else [''You must provide a title for the course with the key title'']) @
     (if is_string (body req ''title'') then [] else [''The title must be a string'']) @
     (if truthy (body req ''description'') then []
      else [''You must provide a description for the course with the key description'']) @
     (if is_string (body req ''description'') then []
      else [''The description must be a string (it is a text field)'']) @
     (if body req ''estimatedTime'' = VUndefined \<or> is_string (body req ''estimatedTime'') then []
      else [''If you provide information for estimatedTime, it should be in string format'']) @
     (if body req ''materialsNeeded'' = VUndefined \<or> is_string (body req ''materialsNeeded'') then []
      else [''If you provide information about the materialsNeeded, it should be in string format'']) @
     (if truthy (body req ''userId'') then []
      else [''You must provide the id of the user this course belongs to'']) @
     (if isInt False (toString (body req ''userId'')) then []
      else [''You must provide a valid userId''])"
  by (simp add: courseValidationChain_items check_instances [OF assms(1)]
      check_instances [OF assms(2)] check_instances [OF assms(3)] body_instances
      run_validator_def)

lemma user_errors_Nil:
  assumes "elsewhere_absent req ''firstName''" and "elsewhere_absent req ''lastName''"
    and "elsewhere_absent req ''emailAddress''" and "elsewhere_absent req ''password''"
  shows "concat (map (run_chain req) (userValidationChain E)) = [] \<longleftrightarrow>
     truthy (body req ''firstName'') \<and> isAlpha (toString (body req ''firstName'')) \<and>
     truthy (body req ''lastName'') \<and> isAlpha (toString (body req ''lastName'')) \<and>
     truthy (body req ''emailAddress'') \<and> E (toString (body req ''emailAddress'')) \<and>
     truthy (body req ''password'')"
  by (simp add: userValidationChain_items check_instances [OF assms(1)]
      check_instances [OF assms(2)] check_instances [OF assms(3)] check_instances [OF assms(4)]
      run_validator_def)

lemma course_errors_Nil:
  assumes "elsewhere_absent req ''title''" and "elsewhere_absent req ''description''"
    and "elsewhere_absent req ''userId''"
  shows "concat (map (run_chain req) courseValidationChain) = [] \<longleftrightarrow>
     truthy (body req ''title'') \<and> is_string (body req ''title'') \<and>
     truthy (body req ''description'') \<and> is_string (body req ''description'') \<and>
     (body req ''estimatedTime'' = VUndefined \<or> is_string (body req ''estimatedTime'')) \<and>
     (body req ''materialsNeeded'' = VUndefined \<or> is_string (body req ''materialsNeeded'')) \<and>
     truthy (body req ''userId'') \<and> isInt False (toString (body req ''userId''))"
  by (simp add: courseValidationChain_items check_instances [OF assms(1)]
      check_instances [OF assms(2)] check_instances [OF assms(3)] body_instances
      run_validator_def)

text \<open>A request built by \<open>request_of\<close> carries its fields in the body alone.\<close>

lemma request_of_elsewhere_absent:
  "toLowerCase f \<noteq> ''authorization'' \<Longrightarrow> f \<noteq> ''id'' \<Longrightarrow> elsewhere_absent (request_of h i b) f"
  by (simp add: elsewhere_absent_def request_of_def no_fields_def split: option.splits)

lemma lower_names:
  "toLowerCase ''firstName'' = ''firstname''"
  "toLowerCase ''lastName'' = ''lastname''"
  "toLowerCase ''emailAddress'' = ''emailaddress''"
  "toLowerCase ''password'' = ''password''"
  "toLowerCase ''title'' = ''title''"
  "toLowerCase ''description'' = ''description''"
  "toLowerCase ''userId'' = ''userid''"
  by (simp_all add: toLowerCase_def)

lemma request_of_fields:
  "elsewhere_absent (request_of h i b) ''firstName''"
  "elsewhere_absent (request_of h i b) ''lastName''"
  "elsewhere_absent (request_of h i b) ''emailAddress''"
  "elsewhere_absent (request_of h i b) ''password''"
  "elsewhere_absent (request_of h i b) ''title''"
  "elsewhere_absent (request_of h i b) ''description''"
  "elsewhere_absent (request_of h i b) ''userId''"
  by (simp_all add: request_of_elsewhere_absent lower_names)

text \<open>Running a chain reads the five places of the request and nothing else.\<close>

lemma selectFields_currentUser:
  "selectFields (req\<lparr>currentUser := x\<rparr>) locs f = selectFields req locs f"
proof -
  have "field_value (req\<lparr>currentUser := x\<rparr>) l f = field_value req l f" for l
    by (cases l) simp_all
  then show ?thesis by (simp add: selectFields_def)
qed

lemma run_items_currentUser:
  "run_items (req\<lparr>currentUser := x\<rparr>) f live its = run_items req f live its"
  by (induction req f live its rule: run_items.induct)
     (simp_all add: selectFields_currentUser)

lemma run_chain_currentUser: "run_chain (req\<lparr>currentUser := x\<rparr>) = run_chain req"
proof
  fix c show "run_chain (req\<lparr>currentUser := x\<rparr>) c = run_chain req c"
    by (cases c) (simp add: run_items_currentUser selectFields_currentUser)
qed

subsection \<open>The routes, unfolded\<close>

lemma post_users_route:
  "apiRouter L db POST_users req w =
     (case post_users L db
             (req\<lparr>validation_errors := validation_errors req @
                 concat (map (run_chain req) (userValidationChain (isEmail L)))\<rparr>) w of
        (Inr res, w') \<Rightarrow> (Reply res, w')
      | (Inl error, w') \<Rightarrow> (Reply (error_response error), w'))"
  by (simp add: use_def validation_def endpoint_def asyncHandler_def split: prod.splits sum.splits)

lemma post_users_rejects:
  assumes "concat (map (run_chain req) (userValidationChain (isEmail L))) \<noteq> []"
  shows "apiRouter L db POST_users req w =
     (Reply \<lparr>status = 400,
             json = JObj [(''errors'', JArr (map JString
               (map msg (validation_errors req) @
                map msg (concat (map (run_chain req) (userValidationChain (isEmail L)))))))]\<rparr>, w)"
proof -
  define es where "es = concat (map (run_chain req) (userValidationChain (isEmail L)))"
  have ne: "es \<noteq> []" unfolding es_def by (rule assms)
  have "apiRouter L db POST_users req w =
      (case post_users L db (req\<lparr>validation_errors := validation_errors req @ es\<rparr>) w of
        (Inr res, w') \<Rightarrow> (Reply res, w')
      | (Inl error, w') \<Rightarrow> (Reply (error_response error), w'))"
    unfolding es_def by (rule post_users_route)
  also have "\<dots> = (Reply (errors_response (validation_errors req @ es)), w)"
    using ne by (simp add: post_users_def validationResult_def)
  finally show ?thesis
    unfolding es_def by (simp add: errors_response_def comp_def del: map_concat)
qed

lemma find_selected:
  "find (\<lambda>user. get user ''emailAddress'' = Some (JString n))
     (map (\<lambda>u. select [''id'', ''emailAddress'', ''password''] (user_columns u)) rows) =
   map_option (\<lambda>u. select [''id'', ''emailAddress'', ''password''] (user_columns u))
     (find (\<lambda>u. emailAddress u = n) rows)"
  by (induction rows) (simp_all add: select_def user_columns_def get_def)

lemma find_last_row:
  assumes "e \<notin> set (map emailAddress rows)" and "emailAddress u = e"
  shows "find (\<lambda>x. emailAddress x = e) (rows @ [u]) = Some u"
  using assms by (induction rows) auto

lemma authenticationFunc_rows:
  assumes "User_findAll db (snd w) = Inr rows"
  shows "authenticationFunc L db req w =
     (case auth L req of
        None \<Rightarrow>
          (Sent \<lparr>status = 401,
             json = message_json
               ''Unauthorized: No credentials provided in the WWW-authenticate header.''\<rparr>, w)
      | Some c \<Rightarrow>
          (case find (\<lambda>u. emailAddress u = cname c) rows of
             None \<Rightarrow>
               (Sent \<lparr>status = 403,
                  json = message_json ''Forbidden: No user matches the credential provided.''\<rparr>, w)
           | Some u \<Rightarrow>
               if compareSync L (pass c) (password u)
               then (Next (req\<lparr>currentUser :=
                        Some (select [''id'', ''emailAddress'', ''password''] (user_columns u))\<rparr>),
                     log (''Authentication successful for username: '' @ emailAddress u) w)
               else (Sent \<lparr>status = 403,
                       json = message_json
                         ''Forbidden: The password did not match the user credential.''\<rparr>, w)))"
  using assms
  by (simp add: authenticationFunc_def findAll_def find_selected compare_def
      split: option.splits)
     (simp add: select_def user_columns_def get_def)

lemma authenticationFunc_Next:
  assumes "fst (authenticationFunc L db req w) = Next req'"
  shows "\<exists>m line. authenticationFunc L db req w = (Next req', log line w) \<and>
           req' = req\<lparr>currentUser := Some m\<rparr>"
  using assms
  by (auto simp: authenticationFunc_def split: option.splits sum.splits if_splits)

lemma authenticationFunc_store:
  assumes "authenticationFunc L db req w = (out, w')"
  shows "snd w' = snd w"
  using assms
  by (auto simp: authenticationFunc_def log_def split: option.splits sum.splits if_splits)

lemma post_users_creates:
  assumes "validation_errors req = []"
    and "concat (map (run_chain req) (userValidationChain (isEmail L))) = []"
    and "hashSync L (body req ''password'') = Inr hash"
    and "User_create db (snd w) (new_user req hash) = Inr (u, s')"
  shows "apiRouter L db POST_users req w =
     (Reply \<lparr>status = 201, json = JObj [(''message'', JString ''Successfully created new user.'')]\<rparr>,
      ((fst w)\<lparr>g_user := Some u\<rparr>, s'))"
proof -
  define es where "es = concat (map (run_chain req) (userValidationChain (isEmail L)))"
  have none: "validation_errors req @ es = []"
    using assms(1,2) by (simp only: es_def append_Nil)
  have same: "new_user (req\<lparr>validation_errors := []\<rparr>) hash = new_user req hash"
    by (simp add: new_user_def)
  have "apiRouter L db POST_users req w =
      (case post_users L db (req\<lparr>validation_errors := validation_errors req @ es\<rparr>) w of
        (Inr res, w') \<Rightarrow> (Reply res, w')
      | (Inl error, w') \<Rightarrow> (Reply (error_response error), w'))"
    unfolding es_def by (rule post_users_route)
  then show ?thesis
    unfolding none using assms(3,4)
    by (simp add: post_users_def validationResult_def message_json_def same)
qed

text \<open>Behind the gate: what a route does once \<open>authenticationFunc\<close> has called \<open>next()\<close>.\<close>

lemma gated_route:
  assumes "fst (authenticationFunc L db req w) = Next req'"
  shows "\<exists>m line.
     use (authenticationFunc L db) (use (validation rules) (endpoint cb)) req w =
     (case cb (req\<lparr>currentUser := Some m,
                   validation_errors := validation_errors req @
                     concat (map (run_chain req) rules)\<rparr>) (log line w) of
        (Inr res, w') \<Rightarrow> (Reply res, w')
      | (Inl error, w') \<Rightarrow> (Reply (error_response error), w'))"
proof -
  from authenticationFunc_Next [OF assms] obtain m line where
    "authenticationFunc L db req w = (Next req', log line w)" "req' = req\<lparr>currentUser := Some m\<rparr>"
    by blast
  then show ?thesis
    by (intro exI [of _ m] exI [of _ line])
       (simp add: use_def validation_def endpoint_def asyncHandler_def run_chain_currentUser
          split: prod.splits sum.splits)
qed

lemma put_course_route:
  assumes "fst (authenticationFunc L db req w) = Next req'"
  shows "\<exists>m line. apiRouter L db PUT_course req w =
     (case put_course db
             (req\<lparr>currentUser := Some m,
                  validation_errors := validation_errors req @
                    concat (map (run_chain req) courseValidationChain)\<rparr>) (log line w) of
        (Inr res, w') \<Rightarrow> (Reply res, w')
      | (Inl error, w') \<Rightarrow> (Reply (error_response error), w'))"
  using gated_route [OF assms, of courseValidationChain "put_course db"] by simp

lemma post_courses_route:
  assumes "fst (authenticationFunc L db req w) = Next req'"
  shows "\<exists>m line. apiRouter L db POST_courses req w =
     (case post_courses db
             (req\<lparr>currentUser := Some m,
                  validation_errors := validation_errors req @
                    concat (map (run_chain req) courseValidationChain)\<rparr>) (log line w) of
        (Inr res, w') \<Rightarrow> (Reply res, w')
      | (Inl error, w') \<Rightarrow> (Reply (error_response error), w'))"
  using gated_route [OF assms, of courseValidationChain "post_courses db"] by simp

lemma get_users_lists:
  assumes "fst (authenticationFunc L db req w) = Next req'"
    and "User_findAll db (snd w) = Inr rows"
  shows "fst (apiRouter L db GET_users req w) =
     Reply \<lparr>status = 200,
            json = JArr (map (\<lambda>u. JObj [ (''id'', JInt (user_id u)),
                                         (''firstName'', JString (firstName u)),
                                         (''lastName'', JString (lastName u)),
                                         (''emailAddress'', JString (emailAddress u)) ]) rows)\<rparr>"
proof -
  from authenticationFunc_Next [OF assms(1)] obtain m line where
    a: "authenticationFunc L db req w = (Next req', log line w)"
    by blast
  have "User_findAll db (snd (log line w)) = Inr rows"
    using assms(2) by (simp add: log_def)
  then have "get_users db req' (log line w) =
     (Inr \<lparr>status = 200,
           json = JArr (map (\<lambda>u. JObj [ (''id'', JInt (user_id u)),
                                         (''firstName'', JString (firstName u)),
                                         (''lastName'', JString (lastName u)),
                                         (''emailAddress'', JString (emailAddress u)) ]) rows)\<rparr>,
      log line w)"
    by (simp add: get_users_def findAll_def select_def user_columns_def comp_def)
  with a show ?thesis
    by (simp add: use_def endpoint_def asyncHandler_def)
qed

text \<open>The gate throws exactly when it has credentials and the lookup of the users throws.\<close>

lemma authenticationFunc_thrown:
  assumes "auth L req = Some c" and "User_findAll db (snd w) = Inl e"
  shows "authenticationFunc L db req w = (Rejected e, w)"
  using assms by (simp add: authenticationFunc_def findAll_def)

lemma authenticationFunc_Rejected:
  assumes "fst (authenticationFunc L db req w) = Rejected e"
  shows "(\<exists>c. auth L req = Some c) \<and> User_findAll db (snd w) = Inl e"
proof (cases "User_findAll db (snd w)")
  case (Inl e')
  with assms show ?thesis
    by (auto simp: authenticationFunc_def findAll_def split: option.splits)
next
  case (Inr rows)
  from assms show ?thesis
    unfolding authenticationFunc_rows [OF Inr]
    by (auto split: option.splits if_splits)
qed

lemma endpoint_replies: "\<exists>res. fst (endpoint cb req w) = Reply res"
  by (simp add: endpoint_def split: prod.splits)

lemma validated_endpoint_replies: "\<exists>res. fst (use (validation rules) (endpoint cb) req w) = Reply res"
  by (simp add: use_def validation_def endpoint_replies)

lemma gate_then:
  assumes "fst (use (authenticationFunc L db) rest req w) = NoReply e"
    and "\<And>r v. \<exists>res. fst (rest r v) = Reply res"
  shows "fst (authenticationFunc L db req w) = Rejected e"
proof -
  obtain out w' where a: "authenticationFunc L db req w = (out, w')"
    by (metis surj_pair)
  show ?thesis
  proof (cases out)
    case (Next r)
    with a assms(1) have "fst (rest r w') = NoReply e" by (simp add: use_def)
    with assms(2) [of r w'] show ?thesis by simp
  next
    case (Sent res)
    with a assms(1) show ?thesis by (simp add: use_def)
  next
    case (Rejected e')
    with a assms(1) show ?thesis by (simp add: use_def)
  qed
qed

lemma apiRouter_NoReply:
  assumes "fst (apiRouter L db route req w) = NoReply e"
  shows "gated route \<and> fst (authenticationFunc L db req w) = Rejected e"
proof (cases route)
  case GET_root
  with assms endpoint_replies [of get_root req w] show ?thesis by simp
next
  case GET_users
  with assms have "fst (use (authenticationFunc L db) (endpoint (get_users db)) req w) = NoReply e"
    by simp
  then have "fst (authenticationFunc L db req w) = Rejected e"
    by (rule gate_then) (rule endpoint_replies)
  with GET_users show ?thesis by simp
next
  case POST_users
  with assms validated_endpoint_replies [of "userValidationChain (isEmail L)" "post_users L db" req w]
  show ?thesis by simp
next
  case GET_courses
  with assms endpoint_replies [of "get_courses db" req w] show ?thesis by simp
next
  case GET_course
  with assms endpoint_replies [of "get_course db" req w] show ?thesis by simp
next
  case POST_courses
  with assms have "fst (use (authenticationFunc L db)
      (use (validation courseValidationChain) (endpoint (post_courses db))) req w) = NoReply e"
    by simp
  then have "fst (authenticationFunc L db req w) = Rejected e"
    by (rule gate_then) (rule validated_endpoint_replies)
  with POST_courses show ?thesis by simp
next
  case PUT_course
  with assms have "fst (use (authenticationFunc L db)
      (use (validation courseValidationChain) (endpoint (put_course db))) req w) = NoReply e"
    by simp
  then have "fst (authenticationFunc L db req w) = Rejected e"
    by (rule gate_then) (rule validated_endpoint_replies)
  with PUT_course show ?thesis by simp
next
  case DELETE_course
  with assms have "fst (use (authenticationFunc L db) (endpoint (delete_course db)) req w) = NoReply e"
    by simp
  then have "fst (authenticationFunc L db req w) = Rejected e"
    by (rule gate_then) (rule endpoint_replies)
  with DELETE_course show ?thesis by simp
qed

lemma gated_NoReply:
  assumes "gated route" and "authenticationFunc L db req w = (Rejected e, w')"
  shows "apiRouter L db route req w = (NoReply e, w')"
  using assms by (cases route) (simp_all add: use_def)

lemma gated_Sent:
  assumes "gated route" and "authenticationFunc L db req w = (Sent res, w')"
  shows "apiRouter L db route req w = (Reply res, w')"
  using assms by (cases route) (simp_all add: use_def)

subsection \<open>The school, evaluated\<close>

lemmas mem_defs = mem_db_def mem_course_findByPk_def mem_course_create_def mem_course_update_def
  keep_or_def mem_user_create_def int_of_text_def isInt_def unsigned_def digit_val_def
  next_id_def

lemmas demo_defs = demo_libs_def demo_parse_def salted_hash_def demo_compare_def

lemmas school_defs = school_def ann_def bob_def algebra_def no_proc_def request_of_def
  no_fields_def

lemmas auth_defs = authenticationFunc_def auth_def findAll_def compare_def log_def get_def
  select_def user_columns_def message_json_def

lemma bob_authenticated:
  "fst (authenticationFunc demo_libs mem_db (request_of as_bob i b) (no_proc, school)) =
     Next ((request_of as_bob i b)\<lparr>currentUser :=
        Some [(''id'', JInt 2), (''emailAddress'', JString ''bob@school.org''),
              (''password'', JString ''$abc123'')]\<rparr>)"
  by (simp add: auth_defs demo_defs mem_db_def school_def ann_def bob_def request_of_def as_bob_def)

subsection \<open>The process is never read\<close>

lemma ignores_proc_use:
  assumes mw: "ignores_proc mw" and rest: "ignores_proc rest"
  shows "ignores_proc (use mw rest)"
  unfolding ignores_proc_def
proof (intro allI)
  fix req p p' s
  obtain out q t where a: "mw req (p, s) = (out, (q, t))"
    by (metis surj_pair)
  obtain out' q' t' where b: "mw req (p', s) = (out', (q', t'))"
    by (metis surj_pair)
  from mw a b have same: "out' = out" "t' = t"
    unfolding ignores_proc_def by (metis fst_conv, metis snd_conv)
  show "fst (use mw rest req (p, s)) = fst (use mw rest req (p', s)) \<and>
        snd (snd (use mw rest req (p, s))) = snd (snd (use mw rest req (p', s)))"
  proof (cases out)
    case (Next r)
    from rest have "fst (rest r (q, t)) = fst (rest r (q', t)) \<and>
        snd (snd (rest r (q, t))) = snd (snd (rest r (q', t)))"
      unfolding ignores_proc_def by blast
    with Next a b same show ?thesis by (simp add: use_def)
  next
    case (Sent res)
    with a b same show ?thesis by (simp add: use_def)
  next
    case (Rejected e)
    with a b same show ?thesis by (simp add: use_def)
  qed
qed

lemma ignores_proc_endpoint:
  assumes "ignores_proc cb"
  shows "ignores_proc (endpoint cb)"
  unfolding ignores_proc_def
proof (intro allI)
  fix req p p' s
  obtain x q t where a: "cb req (p, s) = (x, (q, t))"
    by (metis surj_pair)
  obtain x' q' t' where b: "cb req (p', s) = (x', (q', t'))"
    by (metis surj_pair)
  from assms a b have "x' = x" "t' = t"
    unfolding ignores_proc_def by (metis fst_conv, metis snd_conv)
  with a b show "fst (endpoint cb req (p, s)) = fst (endpoint cb req (p', s)) \<and>
      snd (snd (endpoint cb req (p, s))) = snd (snd (endpoint cb req (p', s)))"
    by (cases x) (simp_all add: endpoint_def asyncHandler_def)
qed

lemma ignores_proc_authenticationFunc: "ignores_proc (authenticationFunc L db)"
  by (simp add: ignores_proc_def authenticationFunc_def log_def split: option.splits sum.splits)

lemma ignores_proc_validation: "ignores_proc (validation rules)"
  by (simp add: ignores_proc_def validation_def)

lemma ignores_proc_callbacks:
  "ignores_proc get_root"
  "ignores_proc (get_users db)"
  "ignores_proc (post_users L db)"
  "ignores_proc (get_courses db)"
  "ignores_proc (get_course db)"
  "ignores_proc (post_courses db)"
  "ignores_proc (put_course db)"
  "ignores_proc (delete_course db)"
  by (simp_all add: ignores_proc_def get_root_def get_users_def post_users_def get_courses_def
      get_course_def post_courses_def put_course_def delete_course_def Let_def
      split: option.splits sum.splits prod.splits)

lemma ignores_proc_apiRouter: "ignores_proc (apiRouter L db route)"
  by (cases route)
     (simp_all add: ignores_proc_use ignores_proc_endpoint ignores_proc_authenticationFunc
        ignores_proc_validation ignores_proc_callbacks)

subsection \<open>Stored secrets are only verified\<close>

lemma find_same_but_secret:
  assumes "list_all2 (same_but_secret v) rows rows'"
  shows "rel_option (same_but_secret v)
           (find (\<lambda>u. emailAddress u = n) rows) (find (\<lambda>u. emailAddress u = n) rows')"
  using assms by (induction rule: list_all2_induct) (auto simp: same_but_secret_def)

lemma listed_same_but_secret:
  assumes "list_all2 (same_but_secret v) rows rows'"
  shows "map (\<lambda>u. select [''id'', ''firstName'', ''lastName'', ''emailAddress''] (user_columns u)) rows' =
         map (\<lambda>u. select [''id'', ''firstName'', ''lastName'', ''emailAddress''] (user_columns u)) rows"
  using assms
  by (induction rule: list_all2_induct)
     (auto simp: same_but_secret_def select_def user_columns_def)

lemma get_users_same:
  assumes "rel_sum (=) (list_all2 (same_but_secret v)) (User_findAll db (snd w)) (F (snd w))"
  shows "get_users (db\<lparr>User_findAll := F\<rparr>) req w = get_users db req w"
proof (cases "User_findAll db (snd w)")
  case (Inl e)
  with assms have "F (snd w) = Inl e" by (cases "F (snd w)") simp_all
  with Inl show ?thesis by (simp add: get_users_def findAll_def)
next
  case (Inr rows)
  with assms obtain rows' where f: "F (snd w) = Inr rows'"
    and r: "list_all2 (same_but_secret v) rows rows'"
    by (cases "F (snd w)") simp_all
  from Inr f listed_same_but_secret [OF r] show ?thesis
    by (simp add: get_users_def findAll_def)
qed

lemma ignores_userD: "ignores_user rest \<Longrightarrow> rest (req\<lparr>currentUser := x\<rparr>) w = rest req w"
  by (simp add: ignores_user_def)

lemma use_authenticationFunc_same:
  assumes "rel_sum (=) (list_all2 (same_but_secret (verdict L req)))
             (User_findAll db (snd w)) (F (snd w))"
    and rest: "ignores_user rest"
  shows "use (authenticationFunc L (db\<lparr>User_findAll := F\<rparr>)) rest req w =
         use (authenticationFunc L db) rest req w"
proof (cases "User_findAll db (snd w)")
  case (Inl e)
  with assms have "F (snd w) = Inl e" by (cases "F (snd w)") simp_all
  with Inl show ?thesis
    by (simp add: use_def authenticationFunc_def findAll_def split: option.splits)
next
  case (Inr rows)
  with assms obtain rows' where f: "F (snd w) = Inr rows'"
    and r: "list_all2 (same_but_secret (verdict L req)) rows rows'"
    by (cases "F (snd w)") simp_all
  from f have f': "User_findAll (db\<lparr>User_findAll := F\<rparr>) (snd w) = Inr rows'" by simp
  show ?thesis
  proof (cases "auth L req")
    case None
    then show ?thesis
      unfolding use_def authenticationFunc_rows [OF Inr] authenticationFunc_rows [OF f'] by simp
  next
    case (Some c)
    from find_same_but_secret [OF r, of "cname c"] Some show ?thesis
      unfolding use_def authenticationFunc_rows [OF Inr] authenticationFunc_rows [OF f']
      by (cases "find (\<lambda>u. emailAddress u = cname c) rows";
          cases "find (\<lambda>u. emailAddress u = cname c) rows'")
         (auto simp: same_but_secret_def verdict_def ignores_userD [OF rest])
  qed
qed

lemma ignores_user_endpoint:
  "ignores_user (endpoint get_root)"
  "ignores_user (endpoint (get_users db))"
  "ignores_user (endpoint (post_users L db))"
  "ignores_user (endpoint (get_courses db))"
  "ignores_user (endpoint (get_course db))"
  "ignores_user (endpoint (post_courses db))"
  "ignores_user (endpoint (put_course db))"
  "ignores_user (endpoint (delete_course db))"
  by (simp_all add: ignores_user_def endpoint_def asyncHandler_def get_root_def get_users_def
      post_users_def get_courses_def get_course_def post_courses_def put_course_def
      delete_course_def validationResult_def body_values_def new_user_def Let_def
      cong: sum.case_cong prod.case_cong option.case_cong if_cong)

lemma ignores_user_validation:
  fixes rest :: "request \<Rightarrow> 'a \<Rightarrow> reply \<times> 'a"
  assumes "ignores_user rest"
  shows "ignores_user (use (validation rules) rest)"
  unfolding ignores_user_def
proof (intro allI)
  fix req :: request and x and w :: 'a
  define E where "E = validation_errors req @ concat (map (run_chain req) rules)"
  have swap: "(req\<lparr>currentUser := x\<rparr>)\<lparr>validation_errors := E\<rparr> =
      (req\<lparr>validation_errors := E\<rparr>)\<lparr>currentUser := x\<rparr>"
    by (cases req) simp
  have "use (validation rules) rest (req\<lparr>currentUser := x\<rparr>) w =
      rest ((req\<lparr>currentUser := x\<rparr>)\<lparr>validation_errors := E\<rparr>) w"
    by (simp add: use_def validation_def E_def run_chain_currentUser del: map_concat)
  also have "\<dots> = rest ((req\<lparr>validation_errors := E\<rparr>)\<lparr>currentUser := x\<rparr>) w"
    by (simp only: swap)
  also have "\<dots> = rest (req\<lparr>validation_errors := E\<rparr>) w"
    by (rule ignores_userD [OF assms])
  also have "\<dots> = use (validation rules) rest req w"
    by (simp add: use_def validation_def E_def del: map_concat)
  finally show "use (validation rules) rest (req\<lparr>currentUser := x\<rparr>) w =
      use (validation rules) rest req w" .
qed

lemma callbacks_same:
  "post_users L (db\<lparr>User_findAll := F\<rparr>) = post_users L db"
  "get_courses (db\<lparr>User_findAll := F\<rparr>) = get_courses db"
  "get_course (db\<lparr>User_findAll := F\<rparr>) = get_course db"
  "post_courses (db\<lparr>User_findAll := F\<rparr>) = post_courses db"
  "put_course (db\<lparr>User_findAll := F\<rparr>) = put_course db"
  "delete_course (db\<lparr>User_findAll := F\<rparr>) = delete_course db"
  by (simp_all add: fun_eq_iff post_users_def get_courses_def get_course_def post_courses_def
      put_course_def delete_course_def Let_def
      cong: sum.case_cong prod.case_cong option.case_cong if_cong)

lemma get_users_endpoint_same:
  assumes "rel_sum (=) (list_all2 (same_but_secret v)) (User_findAll db (snd w)) (F (snd w))"
  shows "endpoint (get_users (db\<lparr>User_findAll := F\<rparr>)) req w = endpoint (get_users db) req w"
proof -
  have "get_users (db\<lparr>User_findAll := F\<rparr>) req w = get_users db req w"
    using assms by (rule get_users_same)
  then show ?thesis by (simp add: endpoint_def asyncHandler_def)
qed

lemma apiRouter_same:
  assumes rel: "rel_sum (=) (list_all2 (same_but_secret (verdict L req)))
             (User_findAll db (snd w)) (F (snd w))"
  shows "apiRouter L (db\<lparr>User_findAll := F\<rparr>) route req w = apiRouter L db route req w"
proof (cases route)
  case GET_root
  then show ?thesis by simp
next
  case GET_users
  have "use (authenticationFunc L (db\<lparr>User_findAll := F\<rparr>))
          (endpoint (get_users (db\<lparr>User_findAll := F\<rparr>))) req w =
        use (authenticationFunc L db) (endpoint (get_users (db\<lparr>User_findAll := F\<rparr>))) req w"
    using rel by (rule use_authenticationFunc_same) (rule ignores_user_endpoint)
  also have "\<dots> = use (authenticationFunc L db) (endpoint (get_users db)) req w"
  proof -
    obtain out w' where a: "authenticationFunc L db req w = (out, w')"
      by (metis surj_pair)
    from authenticationFunc_store [OF a] rel
    have "rel_sum (=) (list_all2 (same_but_secret (verdict L req)))
             (User_findAll db (snd w')) (F (snd w'))"
      by simp
    then have "\<And>r. endpoint (get_users (db\<lparr>User_findAll := F\<rparr>)) r w' =
        endpoint (get_users db) r w'"
      by (rule get_users_endpoint_same)
    with a show ?thesis by (cases out) (simp_all add: use_def)
  qed
  finally show ?thesis using GET_users by simp
next
  case POST_users
  then show ?thesis by (simp add: callbacks_same)
next
  case GET_courses
  then show ?thesis by (simp add: callbacks_same)
next
  case GET_course
  then show ?thesis by (simp add: callbacks_same)
next
  case POST_courses
  have "use (authenticationFunc L (db\<lparr>User_findAll := F\<rparr>))
          (use (validation courseValidationChain) (endpoint (post_courses db))) req w =
        use (authenticationFunc L db)
          (use (validation courseValidationChain) (endpoint (post_courses db))) req w"
    using rel
    by (rule use_authenticationFunc_same)
       (rule ignores_user_validation, rule ignores_user_endpoint)
  with POST_courses show ?thesis by (simp add: callbacks_same)
next
  case PUT_course
  have "use (authenticationFunc L (db\<lparr>User_findAll := F\<rparr>))
          (use (validation courseValidationChain) (endpoint (put_course db))) req w =
        use (authenticationFunc L db)
          (use (validation courseValidationChain) (endpoint (put_course db))) req w"
    using rel
    by (rule use_authenticationFunc_same)
       (rule ignores_user_validation, rule ignores_user_endpoint)
  with PUT_course show ?thesis by (simp add: callbacks_same)
next
  case DELETE_course
  have "use (authenticationFunc L (db\<lparr>User_findAll := F\<rparr>)) (endpoint (delete_course db)) req w =
        use (authenticationFunc L db) (endpoint (delete_course db)) req w"
    using rel by (rule use_authenticationFunc_same) (rule ignores_user_endpoint)
  with DELETE_course show ?thesis by (simp add: callbacks_same)
qed

text \<open>The same with another hash function and another outcome of creating a user.\<close>

lemma other_hash_same:
  assumes "route \<noteq> POST_users"
  shows "apiRouter (L\<lparr>hashSync := H\<rparr>) (db\<lparr>User_findAll := F, User_create := C\<rparr>) route req w =
         apiRouter L (db\<lparr>User_findAll := F\<rparr>) route req w"
proof -
  have gate: "authenticationFunc (L\<lparr>hashSync := H\<rparr>) (db\<lparr>User_findAll := F, User_create := C\<rparr>) =
      authenticationFunc L (db\<lparr>User_findAll := F\<rparr>)"
  proof -
    have c: "compare (L\<lparr>hashSync := H\<rparr>) = compare L"
      by (simp add: fun_eq_iff compare_def split: option.splits json.splits)
    have a: "auth (L\<lparr>hashSync := H\<rparr>) = auth L"
      by (simp add: fun_eq_iff auth_def split: jsval.splits)
    have f: "findAll (db\<lparr>User_findAll := F, User_create := C\<rparr>) = findAll (db\<lparr>User_findAll := F\<rparr>)"
      by (simp add: fun_eq_iff findAll_def)
    show ?thesis
      unfolding fun_eq_iff authenticationFunc_def a c f by simp
  qed
  have cbs: "get_users (db\<lparr>User_findAll := F, User_create := C\<rparr>) = get_users (db\<lparr>User_findAll := F\<rparr>)"
    "get_courses (db\<lparr>User_findAll := F, User_create := C\<rparr>) = get_courses (db\<lparr>User_findAll := F\<rparr>)"
    "get_course (db\<lparr>User_findAll := F, User_create := C\<rparr>) = get_course (db\<lparr>User_findAll := F\<rparr>)"
    "post_courses (db\<lparr>User_findAll := F, User_create := C\<rparr>) = post_courses (db\<lparr>User_findAll := F\<rparr>)"
    "put_course (db\<lparr>User_findAll := F, User_create := C\<rparr>) = put_course (db\<lparr>User_findAll := F\<rparr>)"
    "delete_course (db\<lparr>User_findAll := F, User_create := C\<rparr>) =
       delete_course (db\<lparr>User_findAll := F\<rparr>)"
    by (simp_all add: fun_eq_iff get_users_def findAll_def get_courses_def get_course_def
        post_courses_def put_course_def delete_course_def Let_def
        cong: sum.case_cong prod.case_cong option.case_cong if_cong)
  from assms show ?thesis
    by (cases route) (simp_all add: gate cbs)
qed

lemma post_users_other_hash:
  assumes "alike (hashSync L (body req ''password'')) (H (body req ''password''))"
    and "\<forall>hash hash'. hashSync L (body req ''password'') = Inr hash \<and>
           H (body req ''password'') = Inr hash' \<longrightarrow>
           alike (User_create db (snd w) (new_user req hash)) (C (snd w) (new_user req hash'))"
  shows "fst (apiRouter (L\<lparr>hashSync := H\<rparr>) (db\<lparr>User_findAll := F, User_create := C\<rparr>)
                POST_users req w) =
         fst (apiRouter L db POST_users req w)"
proof -
  define E where "E = validation_errors req @
      concat (map (run_chain req) (userValidationChain (isEmail L)))"
  define r where "r = req\<lparr>validation_errors := E\<rparr>"
  have body: "body r = body req" and errs: "validationResult r = E"
    by (simp_all add: r_def validationResult_def)
  have nu: "new_user r hash = new_user req hash" for hash
    by (simp add: new_user_def body)
  have a: "apiRouter L db POST_users req w =
      (case post_users L db r w of
        (Inr res, w') \<Rightarrow> (Reply res, w')
      | (Inl error, w') \<Rightarrow> (Reply (error_response error), w'))"
    unfolding r_def E_def by (rule post_users_route)
  have b: "apiRouter (L\<lparr>hashSync := H\<rparr>) (db\<lparr>User_findAll := F, User_create := C\<rparr>)
        POST_users req w =
      (case post_users (L\<lparr>hashSync := H\<rparr>) (db\<lparr>User_findAll := F, User_create := C\<rparr>) r w of
        (Inr res, w') \<Rightarrow> (Reply res, w')
      | (Inl error, w') \<Rightarrow> (Reply (error_response error), w'))"
    using post_users_route [of "L\<lparr>hashSync := H\<rparr>" "db\<lparr>User_findAll := F, User_create := C\<rparr>" req w]
    by (simp add: r_def E_def)
  show ?thesis
  proof (cases "E = []")
    case False
    then show ?thesis
      unfolding a b by (simp add: post_users_def errs)
  next
    case True
    show ?thesis
    proof (cases "hashSync L (body req ''password'')")
      case (Inl e)
      with assms(1) have "H (body req ''password'') = Inl e"
        by (cases "H (body req ''password'')") (simp_all add: alike_def)
      with Inl True show ?thesis
        unfolding a b by (simp add: post_users_def errs body)
    next
      case (Inr hash)
      with assms(1) obtain hash' where h': "H (body req ''password'') = Inr hash'"
        by (cases "H (body req ''password'')") (simp_all add: alike_def)
      from assms(2) Inr h'
      have al: "alike (User_create db (snd w) (new_user req hash)) (C (snd w) (new_user req hash'))"
        by blast
      show ?thesis
      proof (cases "User_create db (snd w) (new_user req hash)")
        case (Inl e)
        with al have "C (snd w) (new_user req hash') = Inl e"
          by (cases "C (snd w) (new_user req hash')") (simp_all add: alike_def)
        with Inl Inr h' True show ?thesis
          unfolding a b by (simp add: post_users_def errs body nu)
      next
        case created: (Inr x)
        with al obtain y where "C (snd w) (new_user req hash') = Inr y"
          by (cases "C (snd w) (new_user req hash')") (simp_all add: alike_def)
        with created Inr h' True show ?thesis
          unfolding a b
          by (cases x; cases y) (simp add: post_users_def errs body nu)
      qed
    qed
  qed
qed

lemma apiRouter_secrets:
  assumes "rel_sum (=) (list_all2 (same_but_secret (verdict L req)))
             (User_findAll db (snd w)) (F (snd w))"
    and "alike (hashSync L (body req ''password'')) (H (body req ''password''))"
    and "\<forall>hash hash'. hashSync L (body req ''password'') = Inr hash \<and>
           H (body req ''password'') = Inr hash' \<longrightarrow>
           alike (User_create db (snd w) (new_user req hash)) (C (snd w) (new_user req hash'))"
  shows "fst (apiRouter (L\<lparr>hashSync := H\<rparr>) (db\<lparr>User_findAll := F, User_create := C\<rparr>)
                route req w) =
         fst (apiRouter L db route req w)"
proof (cases "route = POST_users")
  case True
  with post_users_other_hash [where L = L and req = req and H = H and db = db and w = w
      and C = C and F = F] assms(2,3)
  show ?thesis by simp
next
  case False
  have "apiRouter L (db\<lparr>User_findAll := F\<rparr>) route req w = apiRouter L db route req w"
    using assms(1) by (rule apiRouter_same)
  with False show ?thesis
    by (simp add: other_hash_same)
qed

subsection \<open>A field found outside the body\<close>

lemma query_instances:
  assumes "body req f = VUndefined" and "cookies req f = VUndefined"
    and "headers req (toLowerCase f) = VUndefined" and "params req f = VUndefined"
    and "query req f \<noteq> VUndefined"
  shows "getData (selectFields req [Body, Cookies, Headers, Params, Query] f) = [(Query, query req f)]"
  using assms by (simp add: getData_def selectFields_def)

lemma user_errors_first_name_in_query:
  assumes "body req ''firstName'' = VUndefined" and "cookies req ''firstName'' = VUndefined"
    and "headers req ''firstname'' = VUndefined" and "params req ''firstName'' = VUndefined"
    and "query req ''firstName'' \<noteq> VUndefined"
    and "elsewhere_absent req ''lastName''"
    and "elsewhere_absent req ''emailAddress''" and "elsewhere_absent req ''password''"
  shows "concat (map (run_chain req) (userValidationChain E)) = [] \<longleftrightarrow>
     truthy (query req ''firstName'') \<and> isAlpha (toString (query req ''firstName'')) \<and>
     truthy (body req ''lastName'') \<and> isAlpha (toString (body req ''lastName'')) \<and>
     truthy (body req ''emailAddress'') \<and> E (toString (body req ''emailAddress'')) \<and>
     truthy (body req ''password'')"
proof -
  have h: "headers req (toLowerCase ''firstName'') = VUndefined"
    using assms(3) by (simp add: lower_names)
  show ?thesis
    by (simp add: userValidationChain_items query_instances [OF assms(1,2) h assms(4,5)]
        check_instances [OF assms(6)] check_instances [OF assms(7)] check_instances [OF assms(8)]
        run_validator_def)
qed

text \<open>What \<open>POST /users\<close> does with a request that passes the rule list.\<close>

lemma post_users_handles:
  assumes "validation_errors req = []"
    and "concat (map (run_chain req) (userValidationChain (isEmail L))) = []"
  shows "apiRouter L db POST_users req w =
     (case hashSync L (body req ''password'') of
        Inl error \<Rightarrow> (Reply (error_response error), w)
      | Inr hash \<Rightarrow>
          (case User_create db (snd w) (new_user req hash) of
             Inl error \<Rightarrow> (Reply (error_response error), w)
           | Inr (created, s') \<Rightarrow>
               (Reply \<lparr>status = 201,
                       json = JObj [(''message'', JString ''Successfully created new user.'')]\<rparr>,
                ((fst w)\<lparr>g_user := Some created\<rparr>, s'))))"
proof -
  define es where "es = concat (map (run_chain req) (userValidationChain (isEmail L)))"
  have none: "validation_errors req @ es = []"
    using assms(1,2) by (simp only: es_def append_Nil)
  have same: "new_user (req\<lparr>validation_errors := []\<rparr>) hash = new_user req hash" for hash
    by (simp add: new_user_def)
  have "apiRouter L db POST_users req w =
      (case post_users L db (req\<lparr>validation_errors := validation_errors req @ es\<rparr>) w of
        (Inr res, w') \<Rightarrow> (Reply res, w')
      | (Inl error, w') \<Rightarrow> (Reply (error_response error), w'))"
    unfolding es_def by (rule post_users_route)
  then show ?thesis
    unfolding none
    by (simp add: post_users_def validationResult_def message_json_def same
        split: sum.splits prod.splits)
qed

text \<open>The routes behind the gate, with errors reported by the rule list.\<close>

lemma post_courses_rejects:
  assumes "fst (authenticationFunc L db req w) = Next req'"
    and "concat (map (run_chain req) courseValidationChain) \<noteq> []"
  shows "fst (apiRouter L db POST_courses req w) =
           Reply \<lparr>status = 400,
                  json = JObj [(''errors'', JArr (map JString
                    (map msg (validation_errors req) @
                     map msg (concat (map (run_chain req) courseValidationChain)))))]\<rparr> \<and>
         snd (snd (apiRouter L db POST_courses req w)) = snd w"
proof -
  define es where "es = concat (map (run_chain req) courseValidationChain)"
  have ne: "es \<noteq> []" unfolding es_def by (rule assms(2))
  from post_courses_route [OF assms(1)] obtain m line where
    route: "apiRouter L db POST_courses req w =
     (case post_courses db
             (req\<lparr>currentUser := Some m,
                  validation_errors := validation_errors req @ es\<rparr>) (log line w) of
        (Inr res, w') \<Rightarrow> (Reply res, w')
      | (Inl error, w') \<Rightarrow> (Reply (error_response error), w'))"
    unfolding es_def by blast
  have "fst (apiRouter L db POST_courses req w) =
           Reply \<lparr>status = 400,
                  json = JObj [(''errors'', JArr (map JString
                    (map msg (validation_errors req) @ map msg es)))]\<rparr> \<and>
         snd (snd (apiRouter L db POST_courses req w)) = snd w"
    unfolding route using ne
    by (simp add: post_courses_def log_def validationResult_def errors_response_def comp_def)
  then show ?thesis unfolding es_def .
qed

lemma put_course_rejects:
  assumes "fst (authenticationFunc L db req w) = Next req'"
    and "Course_findByPk db (snd w) (params req ''id'') = Inr (Some c)"
    and "concat (map (run_chain req) courseValidationChain) \<noteq> []"
  shows "fst (apiRouter L db PUT_course req w) =
           Reply \<lparr>status = 400,
                  json = JObj [(''errors'', JArr (map JString
                    (map msg (validation_errors req) @
                     map msg (concat (map (run_chain req) courseValidationChain)))))]\<rparr> \<and>
         snd (snd (apiRouter L db PUT_course req w)) = snd w"
proof -
  define es where "es = concat (map (run_chain req) courseValidationChain)"
  have ne: "es \<noteq> []" unfolding es_def by (rule assms(3))
  from put_course_route [OF assms(1)] obtain m line where
    route: "apiRouter L db PUT_course req w =
     (case put_course db
             (req\<lparr>currentUser := Some m,
                  validation_errors := validation_errors req @ es\<rparr>) (log line w) of
        (Inr res, w') \<Rightarrow> (Reply res, w')
      | (Inl error, w') \<Rightarrow> (Reply (error_response error), w'))"
    unfolding es_def by blast
  have "fst (apiRouter L db PUT_course req w) =
           Reply \<lparr>status = 400,
                  json = JObj [(''errors'', JArr (map JString
                    (map msg (validation_errors req) @ map msg es)))]\<rparr> \<and>
         snd (snd (apiRouter L db PUT_course req w)) = snd w"
    unfolding route using ne assms(2)
    by (simp add: put_course_def log_def validationResult_def errors_response_def comp_def)
  then show ?thesis unfolding es_def .
qed

lemma put_course_missing:
  assumes "fst (authenticationFunc L db req w) = Next req'"
    and "Course_findByPk db (snd w) (params req ''id'') = Inr None"
  shows "fst (apiRouter L db PUT_course req w) =
           Reply \<lparr>status = 404,
                  json = JObj [(''message'', JString ''There are no courses with that id.'')]\<rparr> \<and>
         snd (snd (apiRouter L db PUT_course req w)) = snd w"
proof -
  from put_course_route [OF assms(1)] obtain m line where
    route: "apiRouter L db PUT_course req w =
     (case put_course db
             (req\<lparr>currentUser := Some m,
                  validation_errors := validation_errors req @
                    concat (map (run_chain req) courseValidationChain)\<rparr>) (log line w) of
        (Inr res, w') \<Rightarrow> (Reply res, w')
      | (Inl error, w') \<Rightarrow> (Reply (error_response error), w'))"
    by blast
  show ?thesis
    unfolding route using assms(2)
    by (simp add: put_course_def log_def message_json_def del: map_concat)
qed

lemma nonempty_messages:
  assumes "map msg es = m # ms"
  shows "es \<noteq> []"
  using assms by auto

text \<open>A second user under bob's address.\<close>

lemma second_bob_created:
  "apiRouter demo_libs mem_db POST_users (request_of None None second_bob) (no_proc, school) =
     (Reply \<lparr>status = 201, json = JObj [(''message'', JString ''Successfully created new user.'')]\<rparr>,
      (no_proc\<lparr>g_user := Some \<lparr>user_id = 3, firstName = ''Bobby'', lastName = ''Ray'',
                     emailAddress = ''bob@school.org'', password = ''$crocus''\<rparr>\<rparr>,
       \<lparr>users = [ann, bob, \<lparr>user_id = 3, firstName = ''Bobby'', lastName = ''Ray'',
                     emailAddress = ''bob@school.org'', password = ''$crocus''\<rparr>],
        courses = [algebra]\<rparr>))"
proof -
  have fresh: "validation_errors (request_of None None second_bob) = []"
    by (simp add: request_of_def)
  have valid: "concat (map (run_chain (request_of None None second_bob))
      (userValidationChain (isEmail demo_libs))) = []"
    unfolding user_errors_Nil [OF request_of_fields(1-4)]
    by (simp add: request_of_def second_bob_def no_fields_def isAlpha_def demo_libs_def)
  have hashed: "hashSync demo_libs (body (request_of None None second_bob) ''password'') =
      Inr ''$crocus''"
    by (simp add: request_of_def second_bob_def demo_defs)
  have created: "User_create mem_db (snd (no_proc, school))
           (new_user (request_of None None second_bob) ''$crocus'') =
      Inr (\<lparr>user_id = 3, firstName = ''Bobby'', lastName = ''Ray'',
             emailAddress = ''bob@school.org'', password = ''$crocus''\<rparr>,
           \<lparr>users = [ann, bob, \<lparr>user_id = 3, firstName = ''Bobby'', lastName = ''Ray'',
                     emailAddress = ''bob@school.org'', password = ''$crocus''\<rparr>],
            courses = [algebra]\<rparr>)"
    by (simp add: mem_defs new_user_def Let_def request_of_def second_bob_def no_fields_def
        school_def ann_def bob_def)
  from post_users_creates [OF fresh valid hashed created] show ?thesis by simp
qed

section \<open>The claims\<close>

subsection \<open>C1\<close>

text \<open>
  C1. \<open>PUT /courses/:id\<close> by an authenticated caller. When the id finds no course the
  answer is 404 and the store is left as it was, whatever the request carries in its body
  or anywhere else. When the id finds a course and the rule list reports an error the
  answer is 400 with the messages, and the store is left as it was.
\<close>

theorem update_checks_existence_first:
  assumes "fst (authenticationFunc L db req w) = Next req'"
  shows "(Course_findByPk db (snd w) (params req ''id'') = Inr None \<longrightarrow>
            fst (apiRouter L db PUT_course req w) =
              Reply \<lparr>status = 404,
                     json = JObj [(''message'', JString ''There are no courses with that id.'')]\<rparr> \<and>
            snd (snd (apiRouter L db PUT_course req w)) = snd w) \<and>
         (\<forall>c. Course_findByPk db (snd w) (params req ''id'') = Inr (Some c) \<and>
               concat (map (run_chain req) courseValidationChain) \<noteq> [] \<longrightarrow>
            fst (apiRouter L db PUT_course req w) =
              Reply \<lparr>status = 400,
                     json = JObj [(''errors'', JArr (map JString
                       (map msg (validation_errors req) @
                        map msg (concat (map (run_chain req) courseValidationChain)))))]\<rparr> \<and>
            snd (snd (apiRouter L db PUT_course req w)) = snd w)"
proof -
  define es where "es = concat (map (run_chain req) courseValidationChain)"
  from put_course_route [OF assms] obtain m line where
    route: "apiRouter L db PUT_course req w =
     (case put_course db
             (req\<lparr>currentUser := Some m,
                  validation_errors := validation_errors req @ es\<rparr>) (log line w) of
        (Inr res, w') \<Rightarrow> (Reply res, w')
      | (Inl error, w') \<Rightarrow> (Reply (error_response error), w'))"
    unfolding es_def by blast
  have missing: "Course_findByPk db (snd w) (params req ''id'') = Inr None \<longrightarrow>
            fst (apiRouter L db PUT_course req w) =
              Reply \<lparr>status = 404,
                     json = JObj [(''message'', JString ''There are no courses with that id.'')]\<rparr> \<and>
            snd (snd (apiRouter L db PUT_course req w)) = snd w"
    unfolding route by (simp add: put_course_def log_def message_json_def)
  have invalid: "\<forall>c. Course_findByPk db (snd w) (params req ''id'') = Inr (Some c) \<and> es \<noteq> [] \<longrightarrow>
            fst (apiRouter L db PUT_course req w) =
              Reply \<lparr>status = 400,
                     json = JObj [(''errors'', JArr (map JString
                       (map msg (validation_errors req) @ map msg es)))]\<rparr> \<and>
            snd (snd (apiRouter L db PUT_course req w)) = snd w"
    unfolding route
    by (simp add: put_course_def log_def validationResult_def errors_response_def comp_def)
  from missing invalid show ?thesis unfolding es_def by blast
qed

theorem update_checks_existence_first_witness:
  "fst (apiRouter demo_libs mem_db PUT_course (request_of as_bob (Some ''9'') no_fields)
          (no_proc, school)) =
     Reply \<lparr>status = 404,
            json = JObj [(''message'', JString ''There are no courses with that id.'')]\<rparr> \<and>
   snd (snd (apiRouter demo_libs mem_db PUT_course (request_of as_bob (Some ''9'') no_fields)
          (no_proc, school))) = school \<and>
   fst (apiRouter demo_libs mem_db PUT_course (request_of as_bob (Some ''1'') no_fields)
          (no_proc, school)) =
     Reply \<lparr>status = 400,
            json = JObj [(''errors'', JArr
              [ JString ''You must provide a title for the course with the key title'',
                JString ''The title must be a string'',
                JString ''You must provide a description for the course with the key description'',
                JString ''The description must be a string (it is a text field)'',
                JString ''You must provide the id of the user this course belongs to'',
                JString ''You must provide a valid userId'' ])]\<rparr> \<and>
   snd (snd (apiRouter demo_libs mem_db PUT_course (request_of as_bob (Some ''1'') no_fields)
          (no_proc, school))) = school"
proof -
  have missing: "Course_findByPk mem_db (snd (no_proc, school))
      (params (request_of as_bob (Some ''9'') no_fields) ''id'') = Inr None"
    by (simp add: mem_defs school_defs)
  have found: "Course_findByPk mem_db (snd (no_proc, school))
      (params (request_of as_bob (Some ''1'') no_fields) ''id'') = Inr (Some algebra)"
    by (simp add: mem_defs school_defs)
  have ms: "map msg (concat (map (run_chain (request_of as_bob (Some ''1'') no_fields))
      courseValidationChain)) =
      [ ''You must provide a title for the course with the key title'',
        ''The title must be a string'',
        ''You must provide a description for the course with the key description'',
        ''The description must be a string (it is a text field)'',
        ''You must provide the id of the user this course belongs to'',
        ''You must provide a valid userId'' ]"
    unfolding course_messages [OF request_of_fields(5,6,7)]
    by (simp add: request_of_def no_fields_def isInt_def unsigned_def)
  have invalid: "concat (map (run_chain (request_of as_bob (Some ''1'') no_fields))
      courseValidationChain) \<noteq> []"
  proof
    assume "concat (map (run_chain (request_of as_bob (Some ''1'') no_fields))
      courseValidationChain) = []"
    then have "map msg (concat (map (run_chain (request_of as_bob (Some ''1'') no_fields))
      courseValidationChain)) = []"
      by (simp only: list.map)
    with ms show False by simp
  qed
  have fresh: "validation_errors (request_of as_bob (Some ''1'') no_fields) = []"
    by (simp add: request_of_def)
  from update_checks_existence_first [OF bob_authenticated, of "Some ''9''" no_fields] missing
  have a: "fst (apiRouter demo_libs mem_db PUT_course (request_of as_bob (Some ''9'') no_fields)
          (no_proc, school)) =
     Reply \<lparr>status = 404,
            json = JObj [(''message'', JString ''There are no courses with that id.'')]\<rparr> \<and>
   snd (snd (apiRouter demo_libs mem_db PUT_course (request_of as_bob (Some ''9'') no_fields)
          (no_proc, school))) = school"
    by simp
  from update_checks_existence_first [OF bob_authenticated, of "Some ''1''" no_fields] found invalid
  have b: "fst (apiRouter demo_libs mem_db PUT_course (request_of as_bob (Some ''1'') no_fields)
          (no_proc, school)) =
       Reply \<lparr>status = 400,
              json = JObj [(''errors'', JArr (map JString
                (map msg (validation_errors (request_of as_bob (Some ''1'') no_fields)) @
                 map msg (concat (map (run_chain (request_of as_bob (Some ''1'') no_fields))
                   courseValidationChain)))))]\<rparr> \<and>
     snd (snd (apiRouter demo_libs mem_db PUT_course (request_of as_bob (Some ''1'') no_fields)
          (no_proc, school))) = school"
    by simp
  from a b show ?thesis unfolding ms fresh by simp
qed

subsection \<open>C2\<close>

text \<open>
  C2. The outcomes of \<open>authenticationFunc\<close>. Without an Authorization header, or with one
  that does not parse, it answers 401 (before the store is read). With credentials whose
  name is the email address of no stored user it answers 403. With credentials that name a
  stored user (the first one with that email address) whose stored hash does not verify
  the secret it answers 403. When the hash verifies the secret it calls \<open>next()\<close>, with
  that user attached to the request; and whenever it calls \<open>next()\<close>, the request had a
  header that parses, the users were read, and the hash of the first user with that email
  address verified the secret. When the request has credentials and reading the users
  throws, it throws in turn. On the four routes behind it (\<open>GET /users\<close>,
  \<open>POST /courses\<close>, \<open>PUT\<close> and \<open>DELETE /courses/:id\<close>) what it sends is the reply,
  the handler is not reached; and when it throws there is no reply.
\<close>

theorem authentication_partition:
  "((\<forall>h. headers req ''authorization'' \<noteq> VStr h) \<longrightarrow>
      authenticationFunc L db req w =
        (Sent \<lparr>status = 401, json = JObj [(''message'', JString
           ''Unauthorized: No credentials provided in the WWW-authenticate header.'')]\<rparr>, w)) \<and>
   (\<forall>h. headers req ''authorization'' = VStr h \<and> auth_parse L h = None \<longrightarrow>
      authenticationFunc L db req w =
        (Sent \<lparr>status = 401, json = JObj [(''message'', JString
           ''Unauthorized: No credentials provided in the WWW-authenticate header.'')]\<rparr>, w)) \<and>
   (\<forall>h c rows. headers req ''authorization'' = VStr h \<and> auth_parse L h = Some c \<and>
        User_findAll db (snd w) = Inr rows \<and>
        find (\<lambda>u. emailAddress u = cname c) rows = None \<longrightarrow>
      authenticationFunc L db req w =
        (Sent \<lparr>status = 403, json = JObj [(''message'', JString
           ''Forbidden: No user matches the credential provided.'')]\<rparr>, w)) \<and>
   (\<forall>h c rows u. headers req ''authorization'' = VStr h \<and> auth_parse L h = Some c \<and>
        User_findAll db (snd w) = Inr rows \<and>
        find (\<lambda>u. emailAddress u = cname c) rows = Some u \<and>
        \<not> compareSync L (pass c) (password u) \<longrightarrow>
      authenticationFunc L db req w =
        (Sent \<lparr>status = 403, json = JObj [(''message'', JString
           ''Forbidden: The password did not match the user credential.'')]\<rparr>, w)) \<and>
   (\<forall>h c rows u. headers req ''authorization'' = VStr h \<and> auth_parse L h = Some c \<and>
        User_findAll db (snd w) = Inr rows \<and>
        find (\<lambda>u. emailAddress u = cname c) rows = Some u \<and>
        compareSync L (pass c) (password u) \<longrightarrow>
      fst (authenticationFunc L db req w) =
        Next (req\<lparr>currentUser :=
                Some [(''id'', JInt (user_id u)), (''emailAddress'', JString (emailAddress u)),
                      (''password'', JString (password u))]\<rparr>)) \<and>
   (\<forall>req'. fst (authenticationFunc L db req w) = Next req' \<longrightarrow>
      (\<exists>h c rows u. headers req ''authorization'' = VStr h \<and> auth_parse L h = Some c \<and>
         User_findAll db (snd w) = Inr rows \<and>
         find (\<lambda>u. emailAddress u = cname c) rows = Some u \<and>
         compareSync L (pass c) (password u))) \<and>
   (\<forall>h c e. headers req ''authorization'' = VStr h \<and> auth_parse L h = Some c \<and>
        User_findAll db (snd w) = Inl e \<longrightarrow>
      authenticationFunc L db req w = (Rejected e, w)) \<and>
   (\<forall>res w'. gated route \<and> authenticationFunc L db req w = (Sent res, w') \<longrightarrow>
      apiRouter L db route req w = (Reply res, w')) \<and>
   (\<forall>e w'. gated route \<and> authenticationFunc L db req w = (Rejected e, w') \<longrightarrow>
      apiRouter L db route req w = (NoReply e, w'))"
proof (intro conjI allI impI)
  assume "\<forall>h. headers req ''authorization'' \<noteq> VStr h"
  then have "auth L req = None"
    by (simp add: auth_def split: jsval.splits)
  then show "authenticationFunc L db req w =
        (Sent \<lparr>status = 401, json = JObj [(''message'', JString
           ''Unauthorized: No credentials provided in the WWW-authenticate header.'')]\<rparr>, w)"
    by (simp add: authenticationFunc_def message_json_def)
next
  fix h assume "headers req ''authorization'' = VStr h \<and> auth_parse L h = None"
  then show "authenticationFunc L db req w =
        (Sent \<lparr>status = 401, json = JObj [(''message'', JString
           ''Unauthorized: No credentials provided in the WWW-authenticate header.'')]\<rparr>, w)"
    by (simp add: authenticationFunc_def auth_def message_json_def)
next
  fix h c rows
  assume a: "headers req ''authorization'' = VStr h \<and> auth_parse L h = Some c \<and>
        User_findAll db (snd w) = Inr rows \<and>
        find (\<lambda>u. emailAddress u = cname c) rows = None"
  then have "auth L req = Some c" by (simp add: auth_def)
  with a show "authenticationFunc L db req w =
        (Sent \<lparr>status = 403, json = JObj [(''message'', JString
           ''Forbidden: No user matches the credential provided.'')]\<rparr>, w)"
    by (simp add: authenticationFunc_rows message_json_def)
next
  fix h c rows u
  assume a: "headers req ''authorization'' = VStr h \<and> auth_parse L h = Some c \<and>
        User_findAll db (snd w) = Inr rows \<and>
        find (\<lambda>u. emailAddress u = cname c) rows = Some u \<and>
        \<not> compareSync L (pass c) (password u)"
  then have "auth L req = Some c" by (simp add: auth_def)
  with a show "authenticationFunc L db req w =
        (Sent \<lparr>status = 403, json = JObj [(''message'', JString
           ''Forbidden: The password did not match the user credential.'')]\<rparr>, w)"
    by (simp add: authenticationFunc_rows message_json_def)
next
  fix h c rows u
  assume a: "headers req ''authorization'' = VStr h \<and> auth_parse L h = Some c \<and>
        User_findAll db (snd w) = Inr rows \<and>
        find (\<lambda>u. emailAddress u = cname c) rows = Some u \<and>
        compareSync L (pass c) (password u)"
  then have "auth L req = Some c" by (simp add: auth_def)
  with a show "fst (authenticationFunc L db req w) =
        Next (req\<lparr>currentUser :=
                Some [(''id'', JInt (user_id u)), (''emailAddress'', JString (emailAddress u)),
                      (''password'', JString (password u))]\<rparr>)"
    by (simp add: authenticationFunc_rows select_def user_columns_def)
next
  fix req'
  assume a: "fst (authenticationFunc L db req w) = Next req'"
  show "\<exists>h c rows u. headers req ''authorization'' = VStr h \<and> auth_parse L h = Some c \<and>
         User_findAll db (snd w) = Inr rows \<and>
         find (\<lambda>u. emailAddress u = cname c) rows = Some u \<and>
         compareSync L (pass c) (password u)"
  proof (cases "User_findAll db (snd w)")
    case (Inl e)
    with a show ?thesis
      by (simp add: authenticationFunc_def findAll_def split: option.splits)
  next
    case (Inr rows)
    from a show ?thesis
      unfolding authenticationFunc_rows [OF Inr]
      by (auto simp: auth_def Inr split: option.splits if_splits jsval.splits)
  qed
next
  fix h c e
  assume a: "headers req ''authorization'' = VStr h \<and> auth_parse L h = Some c \<and>
        User_findAll db (snd w) = Inl e"
  then have "auth L req = Some c" by (simp add: auth_def)
  with a show "authenticationFunc L db req w = (Rejected e, w)"
    by (simp add: authenticationFunc_thrown)
next
  fix res w'
  assume "gated route \<and> authenticationFunc L db req w = (Sent res, w')"
  then show "apiRouter L db route req w = (Reply res, w')"
    by (simp add: gated_Sent)
next
  fix e w'
  assume "gated route \<and> authenticationFunc L db req w = (Rejected e, w')"
  then show "apiRouter L db route req w = (NoReply e, w')"
    by (simp add: gated_NoReply)
qed

theorem authentication_partition_witness:
  "authenticationFunc demo_libs mem_db (request_of None None no_fields) (no_proc, school) =
     (Sent \<lparr>status = 401, json = JObj [(''message'', JString
        ''Unauthorized: No credentials provided in the WWW-authenticate header.'')]\<rparr>,
      (no_proc, school)) \<and>
   authenticationFunc demo_libs mem_db (request_of (Some ''garbled'') None no_fields)
       (no_proc, school) =
     (Sent \<lparr>status = 401, json = JObj [(''message'', JString
        ''Unauthorized: No credentials provided in the WWW-authenticate header.'')]\<rparr>,
      (no_proc, school)) \<and>
   authenticationFunc demo_libs mem_db (request_of (Some ''zed@school.org:abc123'') None no_fields)
       (no_proc, school) =
     (Sent \<lparr>status = 403, json = JObj [(''message'', JString
        ''Forbidden: No user matches the credential provided.'')]\<rparr>, (no_proc, school)) \<and>
   authenticationFunc demo_libs mem_db (request_of (Some ''bob@school.org:abc124'') None no_fields)
       (no_proc, school) =
     (Sent \<lparr>status = 403, json = JObj [(''message'', JString
        ''Forbidden: The password did not match the user credential.'')]\<rparr>, (no_proc, school)) \<and>
   fst (authenticationFunc demo_libs mem_db (request_of (Some ''bob@school.org:abc123'') None no_fields)
       (no_proc, school)) =
     Next ((request_of (Some ''bob@school.org:abc123'') None no_fields)\<lparr>currentUser :=
        Some [(''id'', JInt 2), (''emailAddress'', JString ''bob@school.org''),
              (''password'', JString ''$abc123'')]\<rparr>) \<and>
   apiRouter demo_libs mem_db DELETE_course (request_of None None no_fields) (no_proc, school) =
     (Reply \<lparr>status = 401, json = JObj [(''message'', JString
        ''Unauthorized: No credentials provided in the WWW-authenticate header.'')]\<rparr>,
      (no_proc, school)) \<and>
   authenticationFunc demo_libs down_db (request_of (Some ''bob@school.org:abc123'') None no_fields)
       (no_proc, school) = (Rejected connection_refused, (no_proc, school)) \<and>
   apiRouter demo_libs down_db DELETE_course
       (request_of (Some ''bob@school.org:abc123'') None no_fields) (no_proc, school) =
     (NoReply connection_refused, (no_proc, school))"
proof -
  have none: "\<forall>h. headers (request_of None None no_fields) ''authorization'' \<noteq> VStr h"
    by (simp add: request_of_def no_fields_def)
  have garbled: "headers (request_of (Some ''garbled'') None no_fields) ''authorization'' =
        VStr ''garbled'' \<and>
      auth_parse demo_libs ''garbled'' = None"
    by (simp add: request_of_def demo_defs)
  have zed: "headers (request_of (Some ''zed@school.org:abc123'') None no_fields) ''authorization'' =
        VStr ''zed@school.org:abc123'' \<and>
      auth_parse demo_libs ''zed@school.org:abc123'' =
        Some \<lparr>cname = ''zed@school.org'', pass = ''abc123''\<rparr> \<and>
      User_findAll mem_db (snd (no_proc, school)) = Inr [ann, bob] \<and>
      find (\<lambda>u. emailAddress u = cname \<lparr>cname = ''zed@school.org'', pass = ''abc123''\<rparr>) [ann, bob] =
        None"
    by (simp add: request_of_def demo_defs mem_db_def school_def ann_def bob_def)
  have wrong: "headers (request_of (Some ''bob@school.org:abc124'') None no_fields) ''authorization'' =
        VStr ''bob@school.org:abc124'' \<and>
      auth_parse demo_libs ''bob@school.org:abc124'' =
        Some \<lparr>cname = ''bob@school.org'', pass = ''abc124''\<rparr> \<and>
      User_findAll mem_db (snd (no_proc, school)) = Inr [ann, bob] \<and>
      find (\<lambda>u. emailAddress u = cname \<lparr>cname = ''bob@school.org'', pass = ''abc124''\<rparr>) [ann, bob] =
        Some bob \<and>
      \<not> compareSync demo_libs (pass \<lparr>cname = ''bob@school.org'', pass = ''abc124''\<rparr>) (password bob)"
    by (simp add: request_of_def demo_defs mem_db_def school_def ann_def bob_def)
  have right: "headers (request_of (Some ''bob@school.org:abc123'') None no_fields) ''authorization'' =
        VStr ''bob@school.org:abc123'' \<and>
      auth_parse demo_libs ''bob@school.org:abc123'' =
        Some \<lparr>cname = ''bob@school.org'', pass = ''abc123''\<rparr> \<and>
      User_findAll mem_db (snd (no_proc, school)) = Inr [ann, bob] \<and>
      find (\<lambda>u. emailAddress u = cname \<lparr>cname = ''bob@school.org'', pass = ''abc123''\<rparr>) [ann, bob] =
        Some bob \<and>
      compareSync demo_libs (pass \<lparr>cname = ''bob@school.org'', pass = ''abc123''\<rparr>) (password bob)"
    by (simp add: request_of_def demo_defs mem_db_def school_def ann_def bob_def)
  have down: "headers (request_of (Some ''bob@school.org:abc123'') None no_fields) ''authorization'' =
        VStr ''bob@school.org:abc123'' \<and>
      auth_parse demo_libs ''bob@school.org:abc123'' =
        Some \<lparr>cname = ''bob@school.org'', pass = ''abc123''\<rparr> \<and>
      User_findAll down_db (snd (no_proc, school)) = Inl connection_refused"
    by (simp add: request_of_def demo_defs down_db_def)
  have gate: "gated DELETE_course" by simp
  note p = authentication_partition [where L = demo_libs and db = mem_db
      and w = "(no_proc, school)" and route = DELETE_course]
  note q = authentication_partition [where L = demo_libs and db = down_db
      and w = "(no_proc, school)" and route = DELETE_course
      and req = "request_of (Some ''bob@school.org:abc123'') None no_fields"]
  have unauthenticated:
    "authenticationFunc demo_libs mem_db (request_of None None no_fields) (no_proc, school) =
     (Sent \<lparr>status = 401, json = JObj [(''message'', JString
        ''Unauthorized: No credentials provided in the WWW-authenticate header.'')]\<rparr>,
      (no_proc, school))"
    using p [of "request_of None None no_fields"] none by blast
  have thrown:
    "authenticationFunc demo_libs down_db (request_of (Some ''bob@school.org:abc123'') None no_fields)
       (no_proc, school) = (Rejected connection_refused, (no_proc, school))"
    using q down by blast
  have "apiRouter demo_libs mem_db DELETE_course (request_of None None no_fields)
      (no_proc, school) =
     (Reply \<lparr>status = 401, json = JObj [(''message'', JString
        ''Unauthorized: No credentials provided in the WWW-authenticate header.'')]\<rparr>,
      (no_proc, school))"
    using p [of "request_of None None no_fields"] unauthenticated gate by blast
  moreover have "apiRouter demo_libs down_db DELETE_course
       (request_of (Some ''bob@school.org:abc123'') None no_fields) (no_proc, school) =
     (NoReply connection_refused, (no_proc, school))"
    using q thrown gate by blast
  moreover note unauthenticated thrown
  moreover have "authenticationFunc demo_libs mem_db (request_of (Some ''garbled'') None no_fields)
       (no_proc, school) =
     (Sent \<lparr>status = 401, json = JObj [(''message'', JString
        ''Unauthorized: No credentials provided in the WWW-authenticate header.'')]\<rparr>,
      (no_proc, school))"
    using p [of "request_of (Some ''garbled'') None no_fields"] garbled by blast
  moreover have "authenticationFunc demo_libs mem_db
       (request_of (Some ''zed@school.org:abc123'') None no_fields) (no_proc, school) =
     (Sent \<lparr>status = 403, json = JObj [(''message'', JString
        ''Forbidden: No user matches the credential provided.'')]\<rparr>, (no_proc, school))"
    using p [of "request_of (Some ''zed@school.org:abc123'') None no_fields"] zed by blast
  moreover have "authenticationFunc demo_libs mem_db
       (request_of (Some ''bob@school.org:abc124'') None no_fields) (no_proc, school) =
     (Sent \<lparr>status = 403, json = JObj [(''message'', JString
        ''Forbidden: The password did not match the user credential.'')]\<rparr>, (no_proc, school))"
    using p [of "request_of (Some ''bob@school.org:abc124'') None no_fields"] wrong by blast
  moreover have "fst (authenticationFunc demo_libs mem_db
       (request_of (Some ''bob@school.org:abc123'') None no_fields) (no_proc, school)) =
     Next ((request_of (Some ''bob@school.org:abc123'') None no_fields)\<lparr>currentUser :=
        Some [(''id'', JInt (user_id bob)), (''emailAddress'', JString (emailAddress bob)),
              (''password'', JString (password bob))]\<rparr>)"
    using p [of "request_of (Some ''bob@school.org:abc123'') None no_fields"] right by blast
  ultimately show ?thesis by (simp add: bob_def)
qed

subsection \<open>C3\<close>

text \<open>
  C3 as stated (each failing rule contributes exactly one message) does not hold. A body
  without \<open>firstName\<close> fails one rule of the user list, the first, and that rule reports
  two messages: its presence check and its \<open>isAlpha\<close> check both run and both fail.
  And a check reports once for every place of the request that holds its field: with
  \<open>firstName\<close> \<open>Cleo1\<close> in the body and \<open>Cleo2\<close> in the query string, the one failing
  check of the first rule reports its message twice. Nor is every failing payload
  answered 400: \<open>PUT /courses/9\<close> with an empty body, when no course has the id 9,
  is answered 404.
\<close>

theorem one_rule_two_messages:
  "map msg (run_chain (request_of None None no_first_name)
       (hd (userValidationChain (isEmail demo_libs)))) =
     [ ''You must provide a first name for the user using the key firstName'',
       ''firstName must be a string, with only alpha characters'' ] \<and>
   apiRouter demo_libs mem_db POST_users (request_of None None no_first_name) (no_proc, school) =
     (Reply \<lparr>status = 400,
             json = JObj [(''errors'', JArr
               [ JString ''You must provide a first name for the user using the key firstName'',
                 JString ''firstName must be a string, with only alpha characters'' ])]\<rparr>,
      (no_proc, school)) \<and>
   apiRouter demo_libs mem_db POST_users first_name_twice (no_proc, school) =
     (Reply \<lparr>status = 400,
             json = JObj [(''errors'', JArr
               [ JString ''firstName must be a string, with only alpha characters'',
                 JString ''firstName must be a string, with only alpha characters'' ])]\<rparr>,
      (no_proc, school)) \<and>
   concat (map (run_chain (request_of as_bob (Some ''9'') no_fields)) courseValidationChain) \<noteq> [] \<and>
   fst (apiRouter demo_libs mem_db PUT_course (request_of as_bob (Some ''9'') no_fields)
          (no_proc, school)) =
     Reply \<lparr>status = 404,
            json = JObj [(''message'', JString ''There are no courses with that id.'')]\<rparr>"
proof -
  have ms: "map msg (concat (map (run_chain (request_of None None no_first_name))
        (userValidationChain (isEmail demo_libs)))) =
     [ ''You must provide a first name for the user using the key firstName'',
       ''firstName must be a string, with only alpha characters'' ]"
    unfolding user_messages [OF request_of_fields(1-4)]
    by (simp add: request_of_def no_first_name_def no_fields_def isAlpha_def demo_libs_def)
  have ne: "concat (map (run_chain (request_of None None no_first_name))
        (userValidationChain (isEmail demo_libs))) \<noteq> []"
    using ms by (rule nonempty_messages)
  have rule: "map msg (run_chain (request_of None None no_first_name)
       (hd (userValidationChain (isEmail demo_libs)))) =
     [ ''You must provide a first name for the user using the key firstName'',
       ''firstName must be a string, with only alpha characters'' ]"
  proof -
    have absent: "body (request_of None None no_first_name) ''firstName'' = VUndefined"
      by (simp add: request_of_def no_first_name_def no_fields_def)
    show ?thesis
      by (simp add: userValidationChain_items check_instances [OF request_of_fields(1)]
          run_validator_def absent isAlpha_def)
  qed
  have once: "apiRouter demo_libs mem_db POST_users (request_of None None no_first_name)
      (no_proc, school) =
     (Reply \<lparr>status = 400,
             json = JObj [(''errors'', JArr
               [ JString ''You must provide a first name for the user using the key firstName'',
                 JString ''firstName must be a string, with only alpha characters'' ])]\<rparr>,
      (no_proc, school))"
    unfolding post_users_rejects [OF ne] ms by (simp add: request_of_def)
  have twice: "getData (selectFields first_name_twice [Body, Cookies, Headers, Params, Query]
        ''firstName'') = [(Body, VStr ''Cleo1''), (Query, VStr ''Cleo2'')]"
    by (simp add: getData_def selectFields_def first_name_twice_def request_of_def no_fields_def
        lower_names)
  have others: "elsewhere_absent first_name_twice ''lastName''"
    "elsewhere_absent first_name_twice ''emailAddress''"
    "elsewhere_absent first_name_twice ''password''"
    by (simp_all add: elsewhere_absent_def first_name_twice_def request_of_def no_fields_def
        lower_names)
  have ms2: "map msg (concat (map (run_chain first_name_twice)
        (userValidationChain (isEmail demo_libs)))) =
     [ ''firstName must be a string, with only alpha characters'',
       ''firstName must be a string, with only alpha characters'' ]"
  proof -
    have fields: "body first_name_twice ''lastName'' = VStr ''Diaz''"
      "body first_name_twice ''emailAddress'' = VStr ''cleo@school.org''"
      "body first_name_twice ''password'' = VStr ''crocus''"
      by (simp_all add: first_name_twice_def request_of_def cleo_def)
    show ?thesis
      by (simp add: userValidationChain_items twice check_instances [OF others(1)]
          check_instances [OF others(2)] check_instances [OF others(3)] run_validator_def
          fields isAlpha_def demo_libs_def)
  qed
  have ne2: "concat (map (run_chain first_name_twice)
        (userValidationChain (isEmail demo_libs))) \<noteq> []"
    using ms2 by (rule nonempty_messages)
  have both: "apiRouter demo_libs mem_db POST_users first_name_twice (no_proc, school) =
     (Reply \<lparr>status = 400,
             json = JObj [(''errors'', JArr
               [ JString ''firstName must be a string, with only alpha characters'',
                 JString ''firstName must be a string, with only alpha characters'' ])]\<rparr>,
      (no_proc, school))"
    unfolding post_users_rejects [OF ne2] ms2
    by (simp add: first_name_twice_def request_of_def)
  have failing: "concat (map (run_chain (request_of as_bob (Some ''9'') no_fields))
      courseValidationChain) \<noteq> []"
    unfolding course_errors_Nil [OF request_of_fields(5,6,7)]
    by (simp add: request_of_def no_fields_def)
  have missing: "Course_findByPk mem_db (snd (no_proc, school))
      (params (request_of as_bob (Some ''9'') no_fields) ''id'') = Inr None"
    by (simp add: mem_defs school_defs)
  have not_found: "fst (apiRouter demo_libs mem_db PUT_course
        (request_of as_bob (Some ''9'') no_fields) (no_proc, school)) =
     Reply \<lparr>status = 404,
            json = JObj [(''message'', JString ''There are no courses with that id.'')]\<rparr>"
    using put_course_missing [OF bob_authenticated missing] by simp
  from rule once both failing not_found show ?thesis by (intro conjI)
qed

text \<open>
  C3, amended. Take a request that carries the fields of a rule list in its body alone.
  Every rule of the list is run, and inside a rule every check is run (only the string
  check of \<open>estimatedTime\<close> and of \<open>materialsNeeded\<close> is skipped, when the field is
  absent). Each check that fails adds exactly one message, so a rule adds as many
  messages as it has failing checks. The messages come in declaration order and none is
  dropped or merged. A request for which the list reports at least one error is answered
  with 400 and the whole list, and the store is left as it was: by \<open>POST /users\<close>; by
  \<open>POST /courses\<close> for an authenticated caller; by \<open>PUT /courses/:id\<close> for an
  authenticated caller when the course exists.
\<close>

theorem every_failed_check_reported:
  "(elsewhere_absent req ''firstName'' \<and> elsewhere_absent req ''lastName'' \<and>
    elsewhere_absent req ''emailAddress'' \<and> elsewhere_absent req ''password'' \<longrightarrow>
    map msg (concat (map (run_chain req) (userValidationChain E))) =
     (if truthy (body req ''firstName'') then []
      else [''You must provide a first name for the user using the key firstName'']) @
     (if isAlpha (toString (body req ''firstName'')) then []
      else [''firstName must be a string, with only alpha characters'']) @
     (if truthy (body req ''lastName'') then []
      else [''You must provide a last name for the user using the key lastName'']) @
     (if isAlpha (toString (body req ''lastName'')) then []
      else [''lastName must be a string, with only alpha characters'']) @
     (if truthy (body req ''emailAddress'') then []
      else [''You must provide an email address for the user using the key emailAddress'']) @
     (if E (toString (body req ''emailAddress'')) then []
      else [''You must provide a valid email address'']) @
     (if truthy (body req ''password'') then []
      else [''You must provide a password for the user using the key password''])) \<and>
   (elsewhere_absent req ''title'' \<and> elsewhere_absent req ''description'' \<and>
    elsewhere_absent req ''userId'' \<longrightarrow>
    map msg (concat (map (run_chain req) courseValidationChain)) =
     (if truthy (body req ''title'') then []
      else [''You must provide a title for the course with the key title'']) @
     (if is_string (body req ''title'') then [] else [''The title must be a string'']) @
     (if truthy (body req ''description'') then []
      else [''You must provide a description for the course with the key description'']) @
     (if is_string (body req ''description'') then []
      else [''The description must be a string (it is a text field)'']) @
     (if body req ''estimatedTime'' = VUndefined \<or> is_string (body req ''estimatedTime'') then []
      else [''If you provide information for estimatedTime, it should be in string format'']) @
     (if body req ''materialsNeeded'' = VUndefined \<or> is_string (body req ''materialsNeeded'') then []
      else [''If you provide information about the materialsNeeded, it should be in string format'']) @
     (if truthy (body req ''userId'') then []
      else [''You must provide the id of the user this course belongs to'']) @
     (if isInt False (toString (body req ''userId'')) then []
      else [''You must provide a valid userId''])) \<and>
   (validation_errors req = [] \<and>
    concat (map (run_chain req) (userValidationChain (isEmail L))) \<noteq> [] \<longrightarrow>
      apiRouter L db POST_users req w =
        (Reply \<lparr>status = 400,
                json = JObj [(''errors'', JArr (map JString
                  (map msg (concat (map (run_chain req)
                     (userValidationChain (isEmail L)))))))]\<rparr>, w)) \<and>
   (\<forall>req'. fst (authenticationFunc L db req w) = Next req' \<and> validation_errors req = [] \<and>
        concat (map (run_chain req) courseValidationChain) \<noteq> [] \<longrightarrow>
      fst (apiRouter L db POST_courses req w) =
        Reply \<lparr>status = 400,
               json = JObj [(''errors'', JArr (map JString
                 (map msg (concat (map (run_chain req) courseValidationChain)))))]\<rparr> \<and>
      snd (snd (apiRouter L db POST_courses req w)) = snd w) \<and>
   (\<forall>req' c. fst (authenticationFunc L db req w) = Next req' \<and> validation_errors req = [] \<and>
        Course_findByPk db (snd w) (params req ''id'') = Inr (Some c) \<and>
        concat (map (run_chain req) courseValidationChain) \<noteq> [] \<longrightarrow>
      fst (apiRouter L db PUT_course req w) =
        Reply \<lparr>status = 400,
               json = JObj [(''errors'', JArr (map JString
                 (map msg (concat (map (run_chain req) courseValidationChain)))))]\<rparr> \<and>
      snd (snd (apiRouter L db PUT_course req w)) = snd w)"
proof -
  have users: "elsewhere_absent req ''firstName'' \<and> elsewhere_absent req ''lastName'' \<and>
    elsewhere_absent req ''emailAddress'' \<and> elsewhere_absent req ''password'' \<longrightarrow>
    map msg (concat (map (run_chain req) (userValidationChain E))) =
     (if truthy (body req ''firstName'') then []
      else [''You must provide a first name for the user using the key firstName'']) @
     (if isAlpha (toString (body req ''firstName'')) then []
      else [''firstName must be a string, with only alpha characters'']) @
     (if truthy (body req ''lastName'') then []
      else [''You must provide a last name for the user using the key lastName'']) @
     (if isAlpha (toString (body req ''lastName'')) then []
      else [''lastName must be a string, with only alpha characters'']) @
     (if truthy (body req ''emailAddress'') then []
      else [''You must provide an email address for the user using the key emailAddress'']) @
     (if E (toString (body req ''emailAddress'')) then []
      else [''You must provide a valid email address'']) @
     (if truthy (body req ''password'') then []
      else [''You must provide a password for the user using the key password''])"
    using user_messages [of req E] by blast
  have courses: "elsewhere_absent req ''title'' \<and> elsewhere_absent req ''description'' \<and>
    elsewhere_absent req ''userId'' \<longrightarrow>
    map msg (concat (map (run_chain req) courseValidationChain)) =
     (if truthy (body req ''title'') then []
      else [''You must provide a title for the course with the key title'']) @
     (if is_string (body req ''title'') then [] else [''The title must be a string'']) @
     (if truthy (body req ''description'') then []
      else [''You must provide a description for the course with the key description'']) @
     (if is_string (body req ''description'') then []
      else [''The description must be a string (it is a text field)'']) @
     (if body req ''estimatedTime'' = VUndefined \<or> is_string (body req ''estimatedTime'') then []
      else [''If you provide information for estimatedTime, it should be in string format'']) @
     (if body req ''materialsNeeded'' = VUndefined \<or> is_string (body req ''materialsNeeded'') then []
      else [''If you provide information about the materialsNeeded, it should be in string format'']) @
     (if truthy (body req ''userId'') then []
      else [''You must provide the id of the user this course belongs to'']) @
     (if isInt False (toString (body req ''userId'')) then []
      else [''You must provide a valid userId''])"
    using course_messages [of req] by blast
  have post_users: "validation_errors req = [] \<and>
    concat (map (run_chain req) (userValidationChain (isEmail L))) \<noteq> [] \<longrightarrow>
      apiRouter L db POST_users req w =
        (Reply \<lparr>status = 400,
                json = JObj [(''errors'', JArr (map JString
                  (map msg (concat (map (run_chain req)
                     (userValidationChain (isEmail L)))))))]\<rparr>, w)"
  proof
    assume a: "validation_errors req = [] \<and>
      concat (map (run_chain req) (userValidationChain (isEmail L))) \<noteq> []"
    then have ne: "concat (map (run_chain req) (userValidationChain (isEmail L))) \<noteq> []"
      by (rule conjunct2)
    from a have fresh: "validation_errors req = []" by (rule conjunct1)
    show "apiRouter L db POST_users req w =
        (Reply \<lparr>status = 400,
                json = JObj [(''errors'', JArr (map JString
                  (map msg (concat (map (run_chain req)
                     (userValidationChain (isEmail L)))))))]\<rparr>, w)"
      unfolding post_users_rejects [OF ne] fresh by (simp only: list.map append_Nil)
  qed
  have post_courses: "\<forall>req'. fst (authenticationFunc L db req w) = Next req' \<and>
        validation_errors req = [] \<and>
        concat (map (run_chain req) courseValidationChain) \<noteq> [] \<longrightarrow>
      fst (apiRouter L db POST_courses req w) =
        Reply \<lparr>status = 400,
               json = JObj [(''errors'', JArr (map JString
                 (map msg (concat (map (run_chain req) courseValidationChain)))))]\<rparr> \<and>
      snd (snd (apiRouter L db POST_courses req w)) = snd w"
  proof (intro allI impI)
    fix req'
    assume a: "fst (authenticationFunc L db req w) = Next req' \<and>
        validation_errors req = [] \<and>
        concat (map (run_chain req) courseValidationChain) \<noteq> []"
    then have n: "fst (authenticationFunc L db req w) = Next req'"
      and fresh: "validation_errors req = []"
      and ne: "concat (map (run_chain req) courseValidationChain) \<noteq> []"
      by simp_all
    from post_courses_rejects [OF n ne]
    show "fst (apiRouter L db POST_courses req w) =
        Reply \<lparr>status = 400,
               json = JObj [(''errors'', JArr (map JString
                 (map msg (concat (map (run_chain req) courseValidationChain)))))]\<rparr> \<and>
      snd (snd (apiRouter L db POST_courses req w)) = snd w"
      unfolding fresh by (simp only: list.map append_Nil)
  qed
  have put_course: "\<forall>req' c. fst (authenticationFunc L db req w) = Next req' \<and>
        validation_errors req = [] \<and>
        Course_findByPk db (snd w) (params req ''id'') = Inr (Some c) \<and>
        concat (map (run_chain req) courseValidationChain) \<noteq> [] \<longrightarrow>
      fst (apiRouter L db PUT_course req w) =
        Reply \<lparr>status = 400,
               json = JObj [(''errors'', JArr (map JString
                 (map msg (concat (map (run_chain req) courseValidationChain)))))]\<rparr> \<and>
      snd (snd (apiRouter L db PUT_course req w)) = snd w"
  proof (intro allI impI)
    fix req' c
    assume a: "fst (authenticationFunc L db req w) = Next req' \<and>
        validation_errors req = [] \<and>
        Course_findByPk db (snd w) (params req ''id'') = Inr (Some c) \<and>
        concat (map (run_chain req) courseValidationChain) \<noteq> []"
    then have n: "fst (authenticationFunc L db req w) = Next req'"
      and fresh: "validation_errors req = []"
      and found: "Course_findByPk db (snd w) (params req ''id'') = Inr (Some c)"
      and ne: "concat (map (run_chain req) courseValidationChain) \<noteq> []"
      by simp_all
    from put_course_rejects [OF n found ne]
    show "fst (apiRouter L db PUT_course req w) =
        Reply \<lparr>status = 400,
               json = JObj [(''errors'', JArr (map JString
                 (map msg (concat (map (run_chain req) courseValidationChain)))))]\<rparr> \<and>
      snd (snd (apiRouter L db PUT_course req w)) = snd w"
      unfolding fresh by (simp only: list.map append_Nil)
  qed
  from users courses post_users post_courses put_course show ?thesis
    by (intro conjI)
qed

theorem every_failed_check_reported_witness:
  "apiRouter demo_libs mem_db POST_users (request_of None None no_first_name) (no_proc, school) =
     (Reply \<lparr>status = 400,
             json = JObj [(''errors'', JArr
               [ JString ''You must provide a first name for the user using the key firstName'',
                 JString ''firstName must be a string, with only alpha characters'' ])]\<rparr>,
      (no_proc, school)) \<and>
   fst (apiRouter demo_libs mem_db POST_courses (request_of as_bob None timed_course)
          (no_proc, school)) =
     Reply \<lparr>status = 400,
            json = JObj [(''errors'', JArr
              [ JString ''If you provide information for estimatedTime, it should be in string format'' ])]\<rparr> \<and>
   snd (snd (apiRouter demo_libs mem_db POST_courses (request_of as_bob None timed_course)
          (no_proc, school))) = school \<and>
   fst (apiRouter demo_libs mem_db PUT_course (request_of as_bob (Some ''1'') timed_course)
          (no_proc, school)) =
     Reply \<lparr>status = 400,
            json = JObj [(''errors'', JArr
              [ JString ''If you provide information for estimatedTime, it should be in string format'' ])]\<rparr> \<and>
   snd (snd (apiRouter demo_libs mem_db PUT_course (request_of as_bob (Some ''1'') timed_course)
          (no_proc, school))) = school"
proof -
  note t = every_failed_check_reported [where L = demo_libs and db = mem_db
      and w = "(no_proc, school)" and E = "isEmail demo_libs"]
  have fresh: "validation_errors (request_of h i b) = []" for h i b
    by (simp add: request_of_def)
  have ums: "map msg (concat (map (run_chain (request_of None None no_first_name))
        (userValidationChain (isEmail demo_libs)))) =
     [ ''You must provide a first name for the user using the key firstName'',
       ''firstName must be a string, with only alpha characters'' ]"
    using t [of "request_of None None no_first_name"] request_of_fields [of None None no_first_name]
    by (simp add: request_of_def no_first_name_def no_fields_def isAlpha_def demo_libs_def)
  have une: "concat (map (run_chain (request_of None None no_first_name))
        (userValidationChain (isEmail demo_libs))) \<noteq> []"
    using ums by (rule nonempty_messages)
  have cms: "map msg (concat (map (run_chain (request_of as_bob i timed_course))
        courseValidationChain)) =
     [ ''If you provide information for estimatedTime, it should be in string format'' ]" for i
    using t [of "request_of as_bob i timed_course"] request_of_fields [of as_bob i timed_course]
    by (simp add: request_of_def timed_course_def no_fields_def isInt_def unsigned_def)
  have cne: "concat (map (run_chain (request_of as_bob i timed_course))
        courseValidationChain) \<noteq> []" for i
    using cms by (rule nonempty_messages)
  have found: "Course_findByPk mem_db (snd (no_proc, school))
      (params (request_of as_bob (Some ''1'') timed_course) ''id'') = Inr (Some algebra)"
    by (simp add: mem_defs school_defs)
  have a: "apiRouter demo_libs mem_db POST_users (request_of None None no_first_name)
      (no_proc, school) =
        (Reply \<lparr>status = 400,
                json = JObj [(''errors'', JArr (map JString
                  (map msg (concat (map (run_chain (request_of None None no_first_name))
                     (userValidationChain (isEmail demo_libs)))))))]\<rparr>, (no_proc, school))"
    using t [of "request_of None None no_first_name"] fresh une by blast
  have b: "fst (apiRouter demo_libs mem_db POST_courses (request_of as_bob None timed_course)
          (no_proc, school)) =
        Reply \<lparr>status = 400,
               json = JObj [(''errors'', JArr (map JString
                 (map msg (concat (map (run_chain (request_of as_bob None timed_course))
                    courseValidationChain)))))]\<rparr> \<and>
      snd (snd (apiRouter demo_libs mem_db POST_courses (request_of as_bob None timed_course)
          (no_proc, school))) = snd (no_proc, school)"
    using t [of "request_of as_bob None timed_course"] fresh cne
      bob_authenticated [of None timed_course]
    by blast
  have c: "fst (apiRouter demo_libs mem_db PUT_course (request_of as_bob (Some ''1'') timed_course)
          (no_proc, school)) =
        Reply \<lparr>status = 400,
               json = JObj [(''errors'', JArr (map JString
                 (map msg (concat (map (run_chain (request_of as_bob (Some ''1'') timed_course))
                    courseValidationChain)))))]\<rparr> \<and>
      snd (snd (apiRouter demo_libs mem_db PUT_course (request_of as_bob (Some ''1'') timed_course)
          (no_proc, school))) = snd (no_proc, school)"
    using t [of "request_of as_bob (Some ''1'') timed_course"] fresh cne found
      bob_authenticated [of "Some ''1''" timed_course]
    by blast
  from a b c show ?thesis unfolding ums cms by simp
qed

subsection \<open>C4\<close>

text \<open>
  C4. \<open>GET /users\<close>, once the caller is authenticated, answers with one object per
  stored user holding exactly \<open>id\<close>, \<open>firstName\<close>, \<open>lastName\<close> and \<open>emailAddress\<close>.
  And for every route, no reply depends on a password hash beyond whether the request's
  secret was verified. A hash reaches the routes in three ways: in the rows that
  \<open>User.findAll\<close> reports, as the result of \<open>hashSync\<close>, and in the row that
  \<open>User.create\<close> returns. Replace the stored hashes that \<open>User.findAll\<close> reports by
  any others on which \<open>compareSync\<close> gives the same verdict for the request's secret, and
  the reply, the store and the process come out the same. Replace in addition
  \<open>hashSync\<close> by any other function that throws when it throws, and \<open>User.create\<close> by
  any other that throws when it throws, whatever row it returns: the reply is the same.
\<close>

theorem stored_secret_never_sent:
  "(fst (authenticationFunc L db req w) = Next req' \<and> User_findAll db (snd w) = Inr rows \<longrightarrow>
      fst (apiRouter L db GET_users req w) =
        Reply \<lparr>status = 200,
               json = JArr (map (\<lambda>u. JObj [ (''id'', JInt (user_id u)),
                                            (''firstName'', JString (firstName u)),
                                            (''lastName'', JString (lastName u)),
                                            (''emailAddress'', JString (emailAddress u)) ]) rows)\<rparr>) \<and>
   (rel_sum (=) (list_all2 (same_but_secret (verdict L req)))
        (User_findAll db (snd w)) (F (snd w)) \<longrightarrow>
      apiRouter L (db\<lparr>User_findAll := F\<rparr>) route req w = apiRouter L db route req w) \<and>
   (rel_sum (=) (list_all2 (same_but_secret (verdict L req)))
        (User_findAll db (snd w)) (F (snd w)) \<and>
    alike (hashSync L (body req ''password'')) (H (body req ''password'')) \<and>
    (\<forall>hash hash'. hashSync L (body req ''password'') = Inr hash \<and>
        H (body req ''password'') = Inr hash' \<longrightarrow>
        alike (User_create db (snd w) (new_user req hash)) (C (snd w) (new_user req hash'))) \<longrightarrow>
      fst (apiRouter (L\<lparr>hashSync := H\<rparr>) (db\<lparr>User_findAll := F, User_create := C\<rparr>)
             route req w) =
      fst (apiRouter L db route req w))"
  using get_users_lists [of L db req w req' rows] apiRouter_same [of L req db w F route]
    apiRouter_secrets [of L req db w F H C route]
  by blast

theorem stored_secret_never_sent_witness:
  "fst (apiRouter demo_libs mem_db GET_users (request_of as_bob None no_fields) (no_proc, school)) =
     Reply \<lparr>status = 200,
            json = JArr
              [ JObj [ (''id'', JInt 1), (''firstName'', JString ''Ann''),
                       (''lastName'', JString ''Lee''),
                       (''emailAddress'', JString ''ann@school.org'') ],
                JObj [ (''id'', JInt 2), (''firstName'', JString ''Bob''),
                       (''lastName'', JString ''Ray''),
                       (''emailAddress'', JString ''bob@school.org'') ] ]\<rparr> \<and>
   resalted school =
     Inr [ann\<lparr>password := ''#tulip''\<rparr>, bob\<lparr>password := ''#abc123''\<rparr>] \<and>
   apiRouter demo_libs (mem_db\<lparr>User_findAll := resalted\<rparr>) GET_users
       (request_of as_bob None no_fields) (no_proc, school) =
     apiRouter demo_libs mem_db GET_users (request_of as_bob None no_fields) (no_proc, school) \<and>
   hashSync demo_libs (VStr ''crocus'') = Inr ''$crocus'' \<and>
   salted_hash CHR ''#'' (VStr ''crocus'') = Inr ''#crocus'' \<and>
   fst (apiRouter (demo_libs\<lparr>hashSync := salted_hash CHR ''#''\<rparr>)
          (mem_db\<lparr>User_findAll := resalted, User_create := mem_user_create\<rparr>) POST_users
          (request_of None None cleo) (no_proc, school)) =
   fst (apiRouter demo_libs mem_db POST_users (request_of None None cleo) (no_proc, school))"
proof -
  have rows: "User_findAll mem_db (snd (no_proc, school)) = Inr [ann, bob]"
    by (simp add: mem_db_def school_def)
  have resalted: "resalted school =
      Inr [ann\<lparr>password := ''#tulip''\<rparr>, bob\<lparr>password := ''#abc123''\<rparr>]"
    by (simp add: resalted_def school_def ann_def bob_def)
  have rel: "rel_sum (=)
      (list_all2 (same_but_secret (verdict demo_libs (request_of as_bob None no_fields))))
      (User_findAll mem_db (snd (no_proc, school))) (resalted (snd (no_proc, school)))"
    by (simp add: mem_db_def resalted_def school_def ann_def bob_def same_but_secret_def
        verdict_def auth_def request_of_def as_bob_def demo_defs)
  have rel': "rel_sum (=)
      (list_all2 (same_but_secret (verdict demo_libs (request_of None None cleo))))
      (User_findAll mem_db (snd (no_proc, school))) (resalted (snd (no_proc, school)))"
    by (simp add: mem_db_def resalted_def school_def ann_def bob_def same_but_secret_def
        verdict_def auth_def request_of_def no_fields_def)
  have secret: "body (request_of None None cleo) ''password'' = VStr ''crocus''"
    by (simp add: request_of_def cleo_def)
  have dollar: "hashSync demo_libs (VStr ''crocus'') = Inr ''$crocus''"
    and hash: "salted_hash CHR ''#'' (VStr ''crocus'') = Inr ''#crocus''"
    by (simp_all add: demo_defs)
  have hashes: "alike (hashSync demo_libs (body (request_of None None cleo) ''password''))
      (salted_hash CHR ''#'' (body (request_of None None cleo) ''password''))"
    unfolding secret dollar hash by (simp add: alike_def)
  have creates: "\<forall>hash hash'.
      hashSync demo_libs (body (request_of None None cleo) ''password'') = Inr hash \<and>
      salted_hash CHR ''#'' (body (request_of None None cleo) ''password'') = Inr hash' \<longrightarrow>
      alike (User_create mem_db (snd (no_proc, school)) (new_user (request_of None None cleo) hash))
        (mem_user_create (snd (no_proc, school)) (new_user (request_of None None cleo) hash'))"
    by (simp add: alike_def mem_db_def mem_user_create_def new_user_def request_of_def cleo_def
        Let_def)
  from stored_secret_never_sent [where L = demo_libs and db = mem_db
      and req = "request_of as_bob None no_fields" and w = "(no_proc, school)"
      and rows = "[ann, bob]" and F = resalted and route = GET_users]
    bob_authenticated rows rel
  have a: "fst (apiRouter demo_libs mem_db GET_users (request_of as_bob None no_fields)
        (no_proc, school)) =
     Reply \<lparr>status = 200,
            json = JArr
              [ JObj [ (''id'', JInt 1), (''firstName'', JString ''Ann''),
                       (''lastName'', JString ''Lee''),
                       (''emailAddress'', JString ''ann@school.org'') ],
                JObj [ (''id'', JInt 2), (''firstName'', JString ''Bob''),
                       (''lastName'', JString ''Ray''),
                       (''emailAddress'', JString ''bob@school.org'') ] ]\<rparr> \<and>
     apiRouter demo_libs (mem_db\<lparr>User_findAll := resalted\<rparr>) GET_users
       (request_of as_bob None no_fields) (no_proc, school) =
     apiRouter demo_libs mem_db GET_users (request_of as_bob None no_fields) (no_proc, school)"
    by (simp add: ann_def bob_def)
  from stored_secret_never_sent [where L = demo_libs and db = mem_db
      and req = "request_of None None cleo" and w = "(no_proc, school)"
      and F = resalted and H = "salted_hash CHR ''#''" and C = mem_user_create
      and route = POST_users]
    rel' hashes creates
  have b: "fst (apiRouter (demo_libs\<lparr>hashSync := salted_hash CHR ''#''\<rparr>)
          (mem_db\<lparr>User_findAll := resalted, User_create := mem_user_create\<rparr>) POST_users
          (request_of None None cleo) (no_proc, school)) =
   fst (apiRouter demo_libs mem_db POST_users (request_of None None cleo) (no_proc, school))"
    by blast
  from a b resalted dollar hash show ?thesis by simp
qed

subsection \<open>C5\<close>

text \<open>
  C5 as stated (for any secret) does not hold when the email address is already taken.
  Creating a second identity for \<open>bob@school.org\<close> with the secret \<open>crocus\<close> succeeds and
  stores its hash, which verifies \<open>crocus\<close>; yet authenticating as \<open>bob@school.org\<close> with
  \<open>crocus\<close> is answered 403, because the first stored user with that address is the one
  whose hash is checked.
\<close>

theorem duplicate_email_breaks_round_trip:
  "hashSync demo_libs (VStr ''crocus'') = Inr ''$crocus'' \<and>
   compareSync demo_libs ''crocus'' ''$crocus'' \<and>
   fst (apiRouter demo_libs mem_db POST_users (request_of None None second_bob) (no_proc, school)) =
     Reply \<lparr>status = 201,
            json = JObj [(''message'', JString ''Successfully created new user.'')]\<rparr> \<and>
   snd (snd (apiRouter demo_libs mem_db POST_users (request_of None None second_bob)
          (no_proc, school))) =
     \<lparr>users = [ann, bob, \<lparr>user_id = 3, firstName = ''Bobby'', lastName = ''Ray'',
                  emailAddress = ''bob@school.org'', password = ''$crocus''\<rparr>],
      courses = [algebra]\<rparr> \<and>
   fst (authenticationFunc demo_libs mem_db
          (request_of (Some ''bob@school.org:crocus'') None no_fields)
          (snd (apiRouter demo_libs mem_db POST_users (request_of None None second_bob)
             (no_proc, school)))) =
     Sent \<lparr>status = 403, json = JObj [(''message'', JString
       ''Forbidden: The password did not match the user credential.'')]\<rparr>"
  unfolding second_bob_created
  by (simp add: auth_defs demo_defs mem_db_def ann_def bob_def request_of_def)

text \<open>
  C5, amended. Let \<open>POST /users\<close> carry a request that passes the rule list, with the
  secret \<open>secret\<close> and an email address that no stored user has yet, and let the
  persistence create the row and list it after the rows it had. Then the answer is 201,
  and authenticating afterwards with that email address and a secret \<open>p\<close> calls
  \<open>next()\<close> when the stored hash verifies \<open>p\<close> (as it does for \<open>p = secret\<close> with
  bcrypt) and is answered 403 when it does not.
\<close>

theorem round_trip_for_a_new_email:
  assumes "validation_errors req = []"
    and "concat (map (run_chain req) (userValidationChain (isEmail L))) = []"
    and "body req ''password'' = VStr secret"
    and "hashSync L (VStr secret) = Inr hash"
    and "User_findAll db (snd w) = Inr rows"
    and "e \<notin> set (map emailAddress rows)"
    and "User_create db (snd w)
           \<lparr>uv_firstName = body req ''firstName'',
            uv_lastName = body req ''lastName'',
            uv_emailAddress = body req ''emailAddress'',
            uv_password = hash\<rparr> = Inr (u, s')"
    and "User_findAll db s' = Inr (rows @ [u])"
    and "emailAddress u = e"
    and "password u = hash"
    and "headers login ''authorization'' = VStr h"
    and "auth_parse L h = Some \<lparr>cname = e, pass = p\<rparr>"
  shows "fst (apiRouter L db POST_users req w) =
           Reply \<lparr>status = 201,
                  json = JObj [(''message'', JString ''Successfully created new user.'')]\<rparr> \<and>
         (compareSync L p hash \<longrightarrow>
            fst (authenticationFunc L db login (snd (apiRouter L db POST_users req w))) =
              Next (login\<lparr>currentUser :=
                Some [(''id'', JInt (user_id u)), (''emailAddress'', JString e),
                      (''password'', JString hash)]\<rparr>)) \<and>
         (\<not> compareSync L p hash \<longrightarrow>
            fst (authenticationFunc L db login (snd (apiRouter L db POST_users req w))) =
              Sent \<lparr>status = 403, json = JObj [(''message'', JString
                ''Forbidden: The password did not match the user credential.'')]\<rparr>)"
proof -
  have hashed: "hashSync L (body req ''password'') = Inr hash"
    using assms(3,4) by simp
  have made: "User_create db (snd w) (new_user req hash) = Inr (u, s')"
    using assms(7) by (simp add: new_user_def)
  have created: "apiRouter L db POST_users req w =
     (Reply \<lparr>status = 201, json = JObj [(''message'', JString ''Successfully created new user.'')]\<rparr>,
      ((fst w)\<lparr>g_user := Some u\<rparr>, s'))"
    by (rule post_users_creates [OF assms(1,2) hashed made])
  have rows': "User_findAll db (snd (snd (apiRouter L db POST_users req w))) = Inr (rows @ [u])"
    using created assms(8) by simp
  have creds: "auth L login = Some \<lparr>cname = e, pass = p\<rparr>"
    using assms(11,12) by (simp add: auth_def)
  have found: "find (\<lambda>x. emailAddress x = e) (rows @ [u]) = Some u"
    by (rule find_last_row [OF assms(6,9)])
  have "fst (apiRouter L db POST_users req w) =
           Reply \<lparr>status = 201,
                  json = JObj [(''message'', JString ''Successfully created new user.'')]\<rparr>"
    using created by simp
  moreover have "compareSync L p hash \<longrightarrow>
            fst (authenticationFunc L db login (snd (apiRouter L db POST_users req w))) =
              Next (login\<lparr>currentUser :=
                Some [(''id'', JInt (user_id u)), (''emailAddress'', JString e),
                      (''password'', JString hash)]\<rparr>)"
    unfolding authenticationFunc_rows [OF rows']
    using creds found assms(9,10) by (simp add: select_def user_columns_def)
  moreover have "\<not> compareSync L p hash \<longrightarrow>
            fst (authenticationFunc L db login (snd (apiRouter L db POST_users req w))) =
              Sent \<lparr>status = 403, json = JObj [(''message'', JString
                ''Forbidden: The password did not match the user credential.'')]\<rparr>"
    unfolding authenticationFunc_rows [OF rows']
    using creds found assms(9,10) by (simp add: message_json_def)
  ultimately show ?thesis by blast
qed

theorem round_trip_for_a_new_email_witness:
  "fst (apiRouter demo_libs mem_db POST_users (request_of None None cleo) (no_proc, school)) =
     Reply \<lparr>status = 201,
            json = JObj [(''message'', JString ''Successfully created new user.'')]\<rparr> \<and>
   fst (authenticationFunc demo_libs mem_db
          (request_of (Some ''cleo@school.org:crocus'') None no_fields)
          (snd (apiRouter demo_libs mem_db POST_users (request_of None None cleo)
             (no_proc, school)))) =
     Next ((request_of (Some ''cleo@school.org:crocus'') None no_fields)\<lparr>currentUser :=
        Some [(''id'', JInt 3), (''emailAddress'', JString ''cleo@school.org''),
              (''password'', JString ''$crocus'')]\<rparr>) \<and>
   fst (authenticationFunc demo_libs mem_db
          (request_of (Some ''cleo@school.org:crocux'') None no_fields)
          (snd (apiRouter demo_libs mem_db POST_users (request_of None None cleo)
             (no_proc, school)))) =
     Sent \<lparr>status = 403, json = JObj [(''message'', JString
       ''Forbidden: The password did not match the user credential.'')]\<rparr>"
proof -
  define u where "u = \<lparr>user_id = 3, firstName = ''Cleo'', lastName = ''Diaz'',
      emailAddress = ''cleo@school.org'', password = ''$crocus''\<rparr>"
  have fresh: "validation_errors (request_of None None cleo) = []"
    by (simp add: request_of_def)
  have valid: "concat (map (run_chain (request_of None None cleo))
      (userValidationChain (isEmail demo_libs))) = []"
    unfolding user_errors_Nil [OF request_of_fields(1-4)]
    by (simp add: request_of_def cleo_def no_fields_def isAlpha_def demo_libs_def)
  have secret: "body (request_of None None cleo) ''password'' = VStr ''crocus''"
    by (simp add: request_of_def cleo_def)
  have hashed: "hashSync demo_libs (VStr ''crocus'') = Inr ''$crocus''"
    by (simp add: demo_defs)
  have rows: "User_findAll mem_db (snd (no_proc, school)) = Inr [ann, bob]"
    by (simp add: mem_db_def school_def)
  have new_email: "''cleo@school.org'' \<notin> set (map emailAddress [ann, bob])"
    by (simp add: ann_def bob_def)
  have created: "User_create mem_db (snd (no_proc, school))
           \<lparr>uv_firstName = body (request_of None None cleo) ''firstName'',
            uv_lastName = body (request_of None None cleo) ''lastName'',
            uv_emailAddress = body (request_of None None cleo) ''emailAddress'',
            uv_password = ''$crocus''\<rparr> =
      Inr (u, \<lparr>users = [ann, bob, u], courses = [algebra]\<rparr>)"
    by (simp add: u_def mem_defs Let_def request_of_def cleo_def no_fields_def school_def ann_def
        bob_def)
  have stored: "User_findAll mem_db \<lparr>users = [ann, bob, u], courses = [algebra]\<rparr> =
      Inr ([ann, bob] @ [u])"
    by (simp add: mem_db_def)
  have email: "emailAddress u = ''cleo@school.org''" and hash: "password u = ''$crocus''"
    by (simp_all add: u_def)
  have right: "headers (request_of (Some ''cleo@school.org:crocus'') None no_fields)
      ''authorization'' = VStr ''cleo@school.org:crocus''"
    and wrong: "headers (request_of (Some ''cleo@school.org:crocux'') None no_fields)
      ''authorization'' = VStr ''cleo@school.org:crocux''"
    by (simp_all add: request_of_def)
  have parse_right: "auth_parse demo_libs ''cleo@school.org:crocus'' =
      Some \<lparr>cname = ''cleo@school.org'', pass = ''crocus''\<rparr>"
    and parse_wrong: "auth_parse demo_libs ''cleo@school.org:crocux'' =
      Some \<lparr>cname = ''cleo@school.org'', pass = ''crocux''\<rparr>"
    by (simp_all add: demo_defs)
  have verifies: "compareSync demo_libs ''crocus'' ''$crocus''"
    and fails: "\<not> compareSync demo_libs ''crocux'' ''$crocus''"
    by (simp_all add: demo_defs)
  from round_trip_for_a_new_email [OF fresh valid secret hashed rows new_email created stored
      email hash right parse_right] verifies
    round_trip_for_a_new_email [OF fresh valid secret hashed rows new_email created stored
      email hash wrong parse_wrong] fails
  show ?thesis by (simp add: u_def)
qed

subsection \<open>C6\<close>

text \<open>
  C6 holds of the route callbacks and fails at the gate. \<open>asyncHandler\<close> wraps every
  route callback: what a callback throws is answered with status 500 and a body holding
  the generic message, the error's name and its message, and a response the callback sent
  itself (a 400 or a 404 as much as a 200) is passed through unchanged; so when
  \<open>Course.findAll\<close> throws, \<open>GET /courses\<close> answers 500. \<open>authenticationFunc\<close> is
  used without the wrapper: on each of the four routes behind it, a request with
  credentials made while \<open>User.findAll\<close> throws gets no reply at all, and this is
  the only way for a route to give no reply.
\<close>

theorem gate_is_not_isolated:
  "(\<forall>c e. gated route \<and> auth L req = Some c \<and> User_findAll db (snd w) = Inl e \<longrightarrow>
      apiRouter L db route req w = (NoReply e, w)) \<and>
   (\<forall>e. fst (apiRouter L db route req w) = NoReply e \<longrightarrow>
      gated route \<and> (\<exists>c. auth L req = Some c) \<and> User_findAll db (snd w) = Inl e) \<and>
   (\<forall>error. fst (cb req w) = Inl error \<longrightarrow>
      endpoint cb req w =
        (Reply \<lparr>status = 500,
                json = JObj [ (''message'', JString ''Sorry, there was an error''),
                              (''name'', JString (name error)),
                              (''description'', JString (message error)) ]\<rparr>, snd (cb req w))) \<and>
   (\<forall>res. fst (cb req w) = Inr res \<longrightarrow> endpoint cb req w = (Reply res, snd (cb req w))) \<and>
   (\<forall>e. Course_findAll db (snd w) = Inl e \<longrightarrow>
      apiRouter L db GET_courses req w =
        (Reply \<lparr>status = 500,
                json = JObj [ (''message'', JString ''Sorry, there was an error''),
                              (''name'', JString (name e)),
                              (''description'', JString (message e)) ]\<rparr>, w))"
proof (intro conjI allI impI)
  fix c e
  assume a: "gated route \<and> auth L req = Some c \<and> User_findAll db (snd w) = Inl e"
  then have "authenticationFunc L db req w = (Rejected e, w)"
    by (simp add: authenticationFunc_thrown)
  with a show "apiRouter L db route req w = (NoReply e, w)"
    by (simp add: gated_NoReply)
next
  fix e
  assume a: "fst (apiRouter L db route req w) = NoReply e"
  from apiRouter_NoReply [OF a] have g: "gated route"
    and r: "fst (authenticationFunc L db req w) = Rejected e"
    by simp_all
  from g show "gated route" .
  from authenticationFunc_Rejected [OF r] show "\<exists>c. auth L req = Some c"
    by simp
  from authenticationFunc_Rejected [OF r] show "User_findAll db (snd w) = Inl e"
    by simp
next
  fix error
  assume "fst (cb req w) = Inl error"
  then show "endpoint cb req w =
        (Reply \<lparr>status = 500,
                json = JObj [ (''message'', JString ''Sorry, there was an error''),
                              (''name'', JString (name error)),
                              (''description'', JString (message error)) ]\<rparr>, snd (cb req w))"
    by (cases "cb req w") (simp add: endpoint_def asyncHandler_def error_response_def)
next
  fix res
  assume "fst (cb req w) = Inr res"
  then show "endpoint cb req w = (Reply res, snd (cb req w))"
    by (cases "cb req w") (simp add: endpoint_def asyncHandler_def)
next
  fix e
  assume "Course_findAll db (snd w) = Inl e"
  then show "apiRouter L db GET_courses req w =
        (Reply \<lparr>status = 500,
                json = JObj [ (''message'', JString ''Sorry, there was an error''),
                              (''name'', JString (name e)),
                              (''description'', JString (message e)) ]\<rparr>, w)"
    by (simp add: endpoint_def asyncHandler_def get_courses_def error_response_def)
qed

theorem gate_is_not_isolated_witness:
  "apiRouter demo_libs down_db GET_users (request_of as_bob None no_fields) (no_proc, school) =
     (NoReply connection_refused, (no_proc, school)) \<and>
   endpoint (get_course mem_db) (request_of None (Some ''9'') no_fields) (no_proc, school) =
     (Reply \<lparr>status = 404,
             json = JObj [(''message'', JString ''There are no courses with that id.'')]\<rparr>,
      (no_proc, school)) \<and>
   apiRouter demo_libs (mem_db\<lparr>Course_findAll := (\<lambda>s. Inl connection_refused)\<rparr>) GET_courses
       (request_of None None no_fields) (no_proc, school) =
     (Reply \<lparr>status = 500,
             json = JObj [ (''message'', JString ''Sorry, there was an error''),
                           (''name'', JString ''SequelizeConnectionRefusedError''),
                           (''description'', JString ''connect ECONNREFUSED'') ]\<rparr>,
      (no_proc, school)) \<and>
   endpoint (get_users down_db) (request_of as_bob None no_fields) (no_proc, school) =
     (Reply \<lparr>status = 500,
             json = JObj [ (''message'', JString ''Sorry, there was an error''),
                           (''name'', JString ''SequelizeConnectionRefusedError''),
                           (''description'', JString ''connect ECONNREFUSED'') ]\<rparr>,
      (no_proc, school))"
proof -
  have thrown: "fst (get_users down_db (request_of as_bob None no_fields) (no_proc, school)) =
      Inl connection_refused"
    and kept: "snd (get_users down_db (request_of as_bob None no_fields) (no_proc, school)) =
      (no_proc, school)"
    by (simp_all add: get_users_def findAll_def down_db_def)
  have down: "gated GET_users \<and>
      auth demo_libs (request_of as_bob None no_fields) =
        Some \<lparr>cname = ''bob@school.org'', pass = ''abc123''\<rparr> \<and>
      User_findAll down_db (snd (no_proc, school)) = Inl connection_refused"
    by (simp add: auth_def request_of_def as_bob_def demo_defs down_db_def)
  have answered: "fst (get_course mem_db (request_of None (Some ''9'') no_fields) (no_proc, school)) =
      Inr \<lparr>status = 404, json = JObj [(''message'', JString ''There are no courses with that id.'')]\<rparr>"
    and same: "snd (get_course mem_db (request_of None (Some ''9'') no_fields) (no_proc, school)) =
      (no_proc, school)"
    by (simp_all add: get_course_def mem_defs school_defs message_json_def)
  have broken: "Course_findAll (mem_db\<lparr>Course_findAll := (\<lambda>s. Inl connection_refused)\<rparr>)
      (snd (no_proc, school)) = Inl connection_refused"
    by simp
  have "apiRouter demo_libs down_db GET_users (request_of as_bob None no_fields) (no_proc, school) =
     (NoReply connection_refused, (no_proc, school))"
    using gate_is_not_isolated [where L = demo_libs and db = down_db and route = GET_users
        and req = "request_of as_bob None no_fields" and w = "(no_proc, school)"] down
    by blast
  moreover have "endpoint (get_course mem_db) (request_of None (Some ''9'') no_fields)
      (no_proc, school) =
     (Reply \<lparr>status = 404,
             json = JObj [(''message'', JString ''There are no courses with that id.'')]\<rparr>,
      (no_proc, school))"
    using gate_is_not_isolated [where cb = "get_course mem_db"
        and req = "request_of None (Some ''9'') no_fields" and w = "(no_proc, school)"]
      answered same
    by simp
  moreover have "apiRouter demo_libs (mem_db\<lparr>Course_findAll := (\<lambda>s. Inl connection_refused)\<rparr>)
       GET_courses (request_of None None no_fields) (no_proc, school) =
     (Reply \<lparr>status = 500,
             json = JObj [ (''message'', JString ''Sorry, there was an error''),
                           (''name'', JString (name connection_refused)),
                           (''description'', JString (message connection_refused)) ]\<rparr>,
      (no_proc, school))"
    using gate_is_not_isolated [where L = demo_libs
        and db = "mem_db\<lparr>Course_findAll := (\<lambda>s. Inl connection_refused)\<rparr>"
        and req = "request_of None None no_fields" and w = "(no_proc, school)"] broken
    by blast
  moreover have "endpoint (get_users down_db) (request_of as_bob None no_fields)
      (no_proc, school) =
     (Reply \<lparr>status = 500,
             json = JObj [ (''message'', JString ''Sorry, there was an error''),
                           (''name'', JString (name connection_refused)),
                           (''description'', JString (message connection_refused)) ]\<rparr>,
      (no_proc, school))"
    using gate_is_not_isolated [where cb = "get_users down_db"
        and req = "request_of as_bob None no_fields" and w = "(no_proc, school)"]
      thrown kept
    by simp
  ultimately show ?thesis by (simp add: connection_refused_def)
qed

subsection \<open>C7\<close>

text \<open>
  C7 holds of a request that carries the four fields in its body alone: with one of them
  missing (\<open>undefined\<close>, \<open>null\<close> or any other falsy value) \<open>POST /users\<close> answers 400,
  the list of errors holds the message that names the key of each missing field, and the
  store and the process are left as they were. It fails when the field missing from the
  body is found elsewhere in the request. The rules are built with \<open>check\<close>, which
  looks for a field in the query string too, while the handler reads the body: with
  \<open>firstName\<close> absent from the body and an alphabetic one in the query string, the rule
  list reports nothing, the handler runs, and \<open>User.create\<close> is called with an
  \<open>undefined\<close> first name. The answer is then 500 when \<open>hashSync\<close> or \<open>User.create\<close>
  throws and 201 otherwise, never 400.
\<close>

theorem missing_field_found_in_query:
  "(elsewhere_absent req ''firstName'' \<and> elsewhere_absent req ''lastName'' \<and>
    elsewhere_absent req ''emailAddress'' \<and> elsewhere_absent req ''password'' \<and>
    (\<not> truthy (body req ''firstName'') \<or> \<not> truthy (body req ''lastName'') \<or>
     \<not> truthy (body req ''emailAddress'') \<or> \<not> truthy (body req ''password'')) \<longrightarrow>
      (\<exists>ms. apiRouter L db POST_users req w =
            (Reply \<lparr>status = 400, json = JObj [(''errors'', JArr (map JString ms))]\<rparr>, w) \<and>
          (\<not> truthy (body req ''firstName'') \<longrightarrow>
             ''You must provide a first name for the user using the key firstName'' \<in> set ms) \<and>
          (\<not> truthy (body req ''lastName'') \<longrightarrow>
             ''You must provide a last name for the user using the key lastName'' \<in> set ms) \<and>
          (\<not> truthy (body req ''emailAddress'') \<longrightarrow>
             ''You must provide an email address for the user using the key emailAddress'' \<in> set ms) \<and>
          (\<not> truthy (body req ''password'') \<longrightarrow>
             ''You must provide a password for the user using the key password'' \<in> set ms))) \<and>
   (validation_errors req = [] \<and>
    body req ''firstName'' = VUndefined \<and> cookies req ''firstName'' = VUndefined \<and>
    headers req ''firstname'' = VUndefined \<and> params req ''firstName'' = VUndefined \<and>
    query req ''firstName'' = VStr n \<and> isAlpha n \<and>
    elsewhere_absent req ''lastName'' \<and> elsewhere_absent req ''emailAddress'' \<and>
    elsewhere_absent req ''password'' \<and>
    truthy (body req ''lastName'') \<and> isAlpha (toString (body req ''lastName'')) \<and>
    truthy (body req ''emailAddress'') \<and> isEmail L (toString (body req ''emailAddress'')) \<and>
    truthy (body req ''password'') \<longrightarrow>
      concat (map (run_chain req) (userValidationChain (isEmail L))) = [] \<and>
      (\<forall>res. fst (apiRouter L db POST_users req w) = Reply res \<longrightarrow> status res \<noteq> 400) \<and>
      (\<forall>hash. uv_firstName (new_user req hash) = VUndefined) \<and>
      (\<forall>e. hashSync L (body req ''password'') = Inl e \<longrightarrow>
         apiRouter L db POST_users req w =
           (Reply \<lparr>status = 500,
                   json = JObj [ (''message'', JString ''Sorry, there was an error''),
                                 (''name'', JString (name e)),
                                 (''description'', JString (message e)) ]\<rparr>, w)) \<and>
      (\<forall>hash e. hashSync L (body req ''password'') = Inr hash \<and>
           User_create db (snd w) (new_user req hash) = Inl e \<longrightarrow>
         apiRouter L db POST_users req w =
           (Reply \<lparr>status = 500,
                   json = JObj [ (''message'', JString ''Sorry, there was an error''),
                                 (''name'', JString (name e)),
                                 (''description'', JString (message e)) ]\<rparr>, w)) \<and>
      (\<forall>hash u s'. hashSync L (body req ''password'') = Inr hash \<and>
           User_create db (snd w) (new_user req hash) = Inr (u, s') \<longrightarrow>
         apiRouter L db POST_users req w =
           (Reply \<lparr>status = 201,
                   json = JObj [(''message'', JString ''Successfully created new user.'')]\<rparr>,
            ((fst w)\<lparr>g_user := Some u\<rparr>, s'))))"
proof (rule conjI)
  show "elsewhere_absent req ''firstName'' \<and> elsewhere_absent req ''lastName'' \<and>
    elsewhere_absent req ''emailAddress'' \<and> elsewhere_absent req ''password'' \<and>
    (\<not> truthy (body req ''firstName'') \<or> \<not> truthy (body req ''lastName'') \<or>
     \<not> truthy (body req ''emailAddress'') \<or> \<not> truthy (body req ''password'')) \<longrightarrow>
      (\<exists>ms. apiRouter L db POST_users req w =
            (Reply \<lparr>status = 400, json = JObj [(''errors'', JArr (map JString ms))]\<rparr>, w) \<and>
          (\<not> truthy (body req ''firstName'') \<longrightarrow>
             ''You must provide a first name for the user using the key firstName'' \<in> set ms) \<and>
          (\<not> truthy (body req ''lastName'') \<longrightarrow>
             ''You must provide a last name for the user using the key lastName'' \<in> set ms) \<and>
          (\<not> truthy (body req ''emailAddress'') \<longrightarrow>
             ''You must provide an email address for the user using the key emailAddress'' \<in> set ms) \<and>
          (\<not> truthy (body req ''password'') \<longrightarrow>
             ''You must provide a password for the user using the key password'' \<in> set ms))"
  proof
    assume a: "elsewhere_absent req ''firstName'' \<and> elsewhere_absent req ''lastName'' \<and>
      elsewhere_absent req ''emailAddress'' \<and> elsewhere_absent req ''password'' \<and>
      (\<not> truthy (body req ''firstName'') \<or> \<not> truthy (body req ''lastName'') \<or>
       \<not> truthy (body req ''emailAddress'') \<or> \<not> truthy (body req ''password''))"
    then have alone: "elsewhere_absent req ''firstName''" "elsewhere_absent req ''lastName''"
      "elsewhere_absent req ''emailAddress''" "elsewhere_absent req ''password''"
      and missing: "\<not> truthy (body req ''firstName'') \<or> \<not> truthy (body req ''lastName'') \<or>
       \<not> truthy (body req ''emailAddress'') \<or> \<not> truthy (body req ''password'')"
      by simp_all
    define es where "es = concat (map (run_chain req) (userValidationChain (isEmail L)))"
    have ms: "map msg es =
       (if truthy (body req ''firstName'') then []
        else [''You must provide a first name for the user using the key firstName'']) @
       (if isAlpha (toString (body req ''firstName'')) then []
        else [''firstName must be a string, with only alpha characters'']) @
       (if truthy (body req ''lastName'') then []
        else [''You must provide a last name for the user using the key lastName'']) @
       (if isAlpha (toString (body req ''lastName'')) then []
        else [''lastName must be a string, with only alpha characters'']) @
       (if truthy (body req ''emailAddress'') then []
        else [''You must provide an email address for the user using the key emailAddress'']) @
       (if isEmail L (toString (body req ''emailAddress'')) then []
        else [''You must provide a valid email address'']) @
       (if truthy (body req ''password'') then []
        else [''You must provide a password for the user using the key password''])"
      unfolding es_def by (rule user_messages [OF alone])
    from missing have "map msg es \<noteq> []"
      unfolding ms by auto
    then have ne: "es \<noteq> []" by auto
    have "apiRouter L db POST_users req w =
       (Reply \<lparr>status = 400,
               json = JObj [(''errors'', JArr (map JString
                 (map msg (validation_errors req) @ map msg es)))]\<rparr>, w)"
      unfolding es_def by (rule post_users_rejects) (use ne es_def in blast)
    moreover have "\<not> truthy (body req ''firstName'') \<longrightarrow>
        ''You must provide a first name for the user using the key firstName'' \<in> set (map msg es)"
      unfolding ms by simp
    moreover have "\<not> truthy (body req ''lastName'') \<longrightarrow>
        ''You must provide a last name for the user using the key lastName'' \<in> set (map msg es)"
      unfolding ms by simp
    moreover have "\<not> truthy (body req ''emailAddress'') \<longrightarrow>
        ''You must provide an email address for the user using the key emailAddress''
          \<in> set (map msg es)"
      unfolding ms by simp
    moreover have "\<not> truthy (body req ''password'') \<longrightarrow>
        ''You must provide a password for the user using the key password'' \<in> set (map msg es)"
      unfolding ms by simp
    ultimately show "\<exists>ms. apiRouter L db POST_users req w =
            (Reply \<lparr>status = 400, json = JObj [(''errors'', JArr (map JString ms))]\<rparr>, w) \<and>
          (\<not> truthy (body req ''firstName'') \<longrightarrow>
             ''You must provide a first name for the user using the key firstName'' \<in> set ms) \<and>
          (\<not> truthy (body req ''lastName'') \<longrightarrow>
             ''You must provide a last name for the user using the key lastName'' \<in> set ms) \<and>
          (\<not> truthy (body req ''emailAddress'') \<longrightarrow>
             ''You must provide an email address for the user using the key emailAddress'' \<in> set ms) \<and>
          (\<not> truthy (body req ''password'') \<longrightarrow>
             ''You must provide a password for the user using the key password'' \<in> set ms)"
      by (intro exI [of _ "map msg (validation_errors req) @ map msg es"]) simp
  qed
next
  show "validation_errors req = [] \<and>
    body req ''firstName'' = VUndefined \<and> cookies req ''firstName'' = VUndefined \<and>
    headers req ''firstname'' = VUndefined \<and> params req ''firstName'' = VUndefined \<and>
    query req ''firstName'' = VStr n \<and> isAlpha n \<and>
    elsewhere_absent req ''lastName'' \<and> elsewhere_absent req ''emailAddress'' \<and>
    elsewhere_absent req ''password'' \<and>
    truthy (body req ''lastName'') \<and> isAlpha (toString (body req ''lastName'')) \<and>
    truthy (body req ''emailAddress'') \<and> isEmail L (toString (body req ''emailAddress'')) \<and>
    truthy (body req ''password'') \<longrightarrow>
      concat (map (run_chain req) (userValidationChain (isEmail L))) = [] \<and>
      (\<forall>res. fst (apiRouter L db POST_users req w) = Reply res \<longrightarrow> status res \<noteq> 400) \<and>
      (\<forall>hash. uv_firstName (new_user req hash) = VUndefined) \<and>
      (\<forall>e. hashSync L (body req ''password'') = Inl e \<longrightarrow>
         apiRouter L db POST_users req w =
           (Reply \<lparr>status = 500,
                   json = JObj [ (''message'', JString ''Sorry, there was an error''),
                                 (''name'', JString (name e)),
                                 (''description'', JString (message e)) ]\<rparr>, w)) \<and>
      (\<forall>hash e. hashSync L (body req ''password'') = Inr hash \<and>
           User_create db (snd w) (new_user req hash) = Inl e \<longrightarrow>
         apiRouter L db POST_users req w =
           (Reply \<lparr>status = 500,
                   json = JObj [ (''message'', JString ''Sorry, there was an error''),
                                 (''name'', JString (name e)),
                                 (''description'', JString (message e)) ]\<rparr>, w)) \<and>
      (\<forall>hash u s'. hashSync L (body req ''password'') = Inr hash \<and>
           User_create db (snd w) (new_user req hash) = Inr (u, s') \<longrightarrow>
         apiRouter L db POST_users req w =
           (Reply \<lparr>status = 201,
                   json = JObj [(''message'', JString ''Successfully created new user.'')]\<rparr>,
            ((fst w)\<lparr>g_user := Some u\<rparr>, s')))"
  proof
    assume a: "validation_errors req = [] \<and>
      body req ''firstName'' = VUndefined \<and> cookies req ''firstName'' = VUndefined \<and>
      headers req ''firstname'' = VUndefined \<and> params req ''firstName'' = VUndefined \<and>
      query req ''firstName'' = VStr n \<and> isAlpha n \<and>
      elsewhere_absent req ''lastName'' \<and> elsewhere_absent req ''emailAddress'' \<and>
      elsewhere_absent req ''password'' \<and>
      truthy (body req ''lastName'') \<and> isAlpha (toString (body req ''lastName'')) \<and>
      truthy (body req ''emailAddress'') \<and> isEmail L (toString (body req ''emailAddress'')) \<and>
      truthy (body req ''password'')"
    then have fresh: "validation_errors req = []"
      and absent: "body req ''firstName'' = VUndefined" "cookies req ''firstName'' = VUndefined"
        "headers req ''firstname'' = VUndefined" "params req ''firstName'' = VUndefined"
      and q: "query req ''firstName'' = VStr n" and alpha: "isAlpha n"
      and alone: "elsewhere_absent req ''lastName''" "elsewhere_absent req ''emailAddress''"
        "elsewhere_absent req ''password''"
      and rest: "truthy (body req ''lastName'')" "isAlpha (toString (body req ''lastName''))"
        "truthy (body req ''emailAddress'')" "isEmail L (toString (body req ''emailAddress''))"
        "truthy (body req ''password'')"
      by simp_all
    have present: "query req ''firstName'' \<noteq> VUndefined" using q by simp
    have given: "truthy (query req ''firstName'')" "isAlpha (toString (query req ''firstName''))"
      using q alpha by (auto simp: isAlpha_def)
    have valid: "concat (map (run_chain req) (userValidationChain (isEmail L))) = []"
      unfolding user_errors_first_name_in_query [OF absent present alone]
      using given rest by simp
    note handled = post_users_handles [OF fresh valid, of db w]
    have not400: "\<forall>res. fst (apiRouter L db POST_users req w) = Reply res \<longrightarrow> status res \<noteq> 400"
      unfolding handled
      by (auto simp: error_response_def split: sum.splits prod.splits)
    have undef: "\<forall>hash. uv_firstName (new_user req hash) = VUndefined"
      using absent(1) by (simp add: new_user_def)
    have h: "\<forall>e. hashSync L (body req ''password'') = Inl e \<longrightarrow>
         apiRouter L db POST_users req w =
           (Reply \<lparr>status = 500,
                   json = JObj [ (''message'', JString ''Sorry, there was an error''),
                                 (''name'', JString (name e)),
                                 (''description'', JString (message e)) ]\<rparr>, w)"
      unfolding handled by (simp add: error_response_def)
    have c: "\<forall>hash e. hashSync L (body req ''password'') = Inr hash \<and>
           User_create db (snd w) (new_user req hash) = Inl e \<longrightarrow>
         apiRouter L db POST_users req w =
           (Reply \<lparr>status = 500,
                   json = JObj [ (''message'', JString ''Sorry, there was an error''),
                                 (''name'', JString (name e)),
                                 (''description'', JString (message e)) ]\<rparr>, w)"
      unfolding handled by (simp add: error_response_def)
    have d: "\<forall>hash u s'. hashSync L (body req ''password'') = Inr hash \<and>
           User_create db (snd w) (new_user req hash) = Inr (u, s') \<longrightarrow>
         apiRouter L db POST_users req w =
           (Reply \<lparr>status = 201,
                   json = JObj [(''message'', JString ''Successfully created new user.'')]\<rparr>,
            ((fst w)\<lparr>g_user := Some u\<rparr>, s'))"
      unfolding handled by simp
    from valid not400 undef h c d
    show "concat (map (run_chain req) (userValidationChain (isEmail L))) = [] \<and>
      (\<forall>res. fst (apiRouter L db POST_users req w) = Reply res \<longrightarrow> status res \<noteq> 400) \<and>
      (\<forall>hash. uv_firstName (new_user req hash) = VUndefined) \<and>
      (\<forall>e. hashSync L (body req ''password'') = Inl e \<longrightarrow>
         apiRouter L db POST_users req w =
           (Reply \<lparr>status = 500,
                   json = JObj [ (''message'', JString ''Sorry, there was an error''),
                                 (''name'', JString (name e)),
                                 (''description'', JString (message e)) ]\<rparr>, w)) \<and>
      (\<forall>hash e. hashSync L (body req ''password'') = Inr hash \<and>
           User_create db (snd w) (new_user req hash) = Inl e \<longrightarrow>
         apiRouter L db POST_users req w =
           (Reply \<lparr>status = 500,
                   json = JObj [ (''message'', JString ''Sorry, there was an error''),
                                 (''name'', JString (name e)),
                                 (''description'', JString (message e)) ]\<rparr>, w)) \<and>
      (\<forall>hash u s'. hashSync L (body req ''password'') = Inr hash \<and>
           User_create db (snd w) (new_user req hash) = Inr (u, s') \<longrightarrow>
         apiRouter L db POST_users req w =
           (Reply \<lparr>status = 201,
                   json = JObj [(''message'', JString ''Successfully created new user.'')]\<rparr>,
            ((fst w)\<lparr>g_user := Some u\<rparr>, s')))"
      by (intro conjI)
  qed
qed

theorem missing_field_found_in_query_witness:
  "\<not> truthy (body first_name_in_query ''firstName'') \<and>
   concat (map (run_chain first_name_in_query) (userValidationChain (isEmail demo_libs))) = [] \<and>
   apiRouter demo_libs mem_db POST_users first_name_in_query (no_proc, school) =
     (Reply \<lparr>status = 500,
             json = JObj [ (''message'', JString ''Sorry, there was an error''),
                           (''name'', JString ''SequelizeValidationError''),
                           (''description'', JString ''Validation error'') ]\<rparr>,
      (no_proc, school)) \<and>
   (\<exists>ms. apiRouter demo_libs mem_db POST_users (request_of None None no_first_name)
            (no_proc, school) =
          (Reply \<lparr>status = 400, json = JObj [(''errors'', JArr (map JString ms))]\<rparr>,
           (no_proc, school)) \<and>
        ''You must provide a first name for the user using the key firstName'' \<in> set ms)"
proof -
  have hyp: "validation_errors first_name_in_query = [] \<and>
    body first_name_in_query ''firstName'' = VUndefined \<and>
    cookies first_name_in_query ''firstName'' = VUndefined \<and>
    headers first_name_in_query ''firstname'' = VUndefined \<and>
    params first_name_in_query ''firstName'' = VUndefined \<and>
    query first_name_in_query ''firstName'' = VStr ''Ann'' \<and> isAlpha ''Ann'' \<and>
    elsewhere_absent first_name_in_query ''lastName'' \<and>
    elsewhere_absent first_name_in_query ''emailAddress'' \<and>
    elsewhere_absent first_name_in_query ''password'' \<and>
    truthy (body first_name_in_query ''lastName'') \<and>
    isAlpha (toString (body first_name_in_query ''lastName'')) \<and>
    truthy (body first_name_in_query ''emailAddress'') \<and>
    isEmail demo_libs (toString (body first_name_in_query ''emailAddress'')) \<and>
    truthy (body first_name_in_query ''password'')"
    by (simp add: first_name_in_query_def request_of_def no_first_name_def no_fields_def
        elsewhere_absent_def lower_names isAlpha_def demo_libs_def)
  have hashed: "hashSync demo_libs (body first_name_in_query ''password'') = Inr ''$crocus''"
    by (simp add: first_name_in_query_def request_of_def no_first_name_def demo_defs)
  have refused: "User_create mem_db (snd (no_proc, school))
      (new_user first_name_in_query ''$crocus'') = Inl validation_error"
    by (simp add: mem_defs new_user_def first_name_in_query_def request_of_def no_first_name_def
        no_fields_def)
  have missing: "\<not> truthy (body (request_of None None no_first_name) ''firstName'')"
    by (simp add: request_of_def no_first_name_def no_fields_def)
  note t = missing_field_found_in_query [where L = demo_libs and db = mem_db
      and w = "(no_proc, school)"]
  have a: "concat (map (run_chain first_name_in_query) (userValidationChain (isEmail demo_libs))) = []"
    using t [of first_name_in_query "''Ann''"] hyp by blast
  have b: "apiRouter demo_libs mem_db POST_users first_name_in_query (no_proc, school) =
     (Reply \<lparr>status = 500,
             json = JObj [ (''message'', JString ''Sorry, there was an error''),
                           (''name'', JString (name validation_error)),
                           (''description'', JString (message validation_error)) ]\<rparr>,
      (no_proc, school))"
    using t [of first_name_in_query "''Ann''"] hyp hashed refused by blast
  have c: "\<exists>ms. apiRouter demo_libs mem_db POST_users (request_of None None no_first_name)
            (no_proc, school) =
          (Reply \<lparr>status = 400, json = JObj [(''errors'', JArr (map JString ms))]\<rparr>,
           (no_proc, school)) \<and>
        ''You must provide a first name for the user using the key firstName'' \<in> set ms"
    using t [of "request_of None None no_first_name"] missing
      request_of_fields(1-4) [of None None no_first_name]
    by blast
  have d: "\<not> truthy (body first_name_in_query ''firstName'')"
    using hyp by simp
  from a b c d show ?thesis by (simp add: validation_error_def)
qed

subsection \<open>C8\<close>

text \<open>
  C8. In the errors of the course rule list, the ones about \<open>estimatedTime\<close> are: none
  when the field is absent, none when it is a string, exactly one when it is present and
  not a string. The same holds for \<open>materialsNeeded\<close>.
\<close>

theorem optional_course_fields:
  "map msg (filter (\<lambda>e. param e = ''estimatedTime'')
              (concat (map (run_chain req) courseValidationChain))) =
     (if body req ''estimatedTime'' = VUndefined then []
      else if is_string (body req ''estimatedTime'') then []
      else [''If you provide information for estimatedTime, it should be in string format'']) \<and>
   map msg (filter (\<lambda>e. param e = ''materialsNeeded'')
              (concat (map (run_chain req) courseValidationChain))) =
     (if body req ''materialsNeeded'' = VUndefined then []
      else if is_string (body req ''materialsNeeded'') then []
      else [''If you provide information about the materialsNeeded, it should be in string format''])"
proof -
  have other: "filter (\<lambda>e. param e = g) (run_items req f live [Validator p m, Validator p' m']) = []"
    if "f \<noteq> g" for f g live p m p' m'
    using that by (auto simp: run_validator_def filter_empty_conv)
  show ?thesis
    by (simp add: courseValidationChain_items other body_instances run_validator_def)
qed

theorem optional_course_fields_witness:
  "map msg (filter (\<lambda>e. param e = ''estimatedTime'')
              (concat (map (run_chain (request_of None None timed_course)) courseValidationChain))) =
     [''If you provide information for estimatedTime, it should be in string format''] \<and>
   map msg (filter (\<lambda>e. param e = ''materialsNeeded'')
              (concat (map (run_chain (request_of None None timed_course)) courseValidationChain))) = []"
  using optional_course_fields [of "request_of None None timed_course"]
  by (simp add: timed_course_def no_fields_def request_of_def)

subsection \<open>C9\<close>

text \<open>
  C9. For every route, request and store, the reply and the store left behind are the same
  whatever the process holds when the request arrives: the console and the variables
  \<open>user\<close> and \<open>course\<close>, which the create handlers write, are never read. So a
  reply is a function of the request and the store alone; and of two requests handled one
  after the other, the second is answered as it would be by a process that had never
  seen the first, given the store the first left.
\<close>

theorem replies_ignore_process_state:
  "fst (apiRouter L db route req (p, s)) = fst (apiRouter L db route req (p', s)) \<and>
   snd (snd (apiRouter L db route req (p, s))) = snd (snd (apiRouter L db route req (p', s))) \<and>
   fst (apiRouter L db route' req' (snd (apiRouter L db route req (p, s)))) =
   fst (apiRouter L db route' req' (p', snd (snd (apiRouter L db route req (p, s)))))"
proof -
  have one: "\<And>route req p p' s.
      fst (apiRouter L db route req (p, s)) = fst (apiRouter L db route req (p', s)) \<and>
      snd (snd (apiRouter L db route req (p, s))) = snd (snd (apiRouter L db route req (p', s)))"
    using ignores_proc_apiRouter [of L db] unfolding ignores_proc_def by blast
  obtain r q t where first: "apiRouter L db route req (p, s) = (r, (q, t))"
    by (metis surj_pair)
  from one [of route' req' q t p'] first one [of route req p s p'] show ?thesis by simp
qed

theorem replies_ignore_process_state_witness:
  "fst (apiRouter demo_libs mem_db POST_users (request_of None None cleo) (no_proc, school)) =
   fst (apiRouter demo_libs mem_db POST_users (request_of None None cleo) (busy_proc, school)) \<and>
   snd (snd (apiRouter demo_libs mem_db POST_users (request_of None None cleo) (no_proc, school))) =
   snd (snd (apiRouter demo_libs mem_db POST_users (request_of None None cleo) (busy_proc, school))) \<and>
   fst (apiRouter demo_libs mem_db GET_course (request_of None (Some ''1'') no_fields)
          (snd (apiRouter demo_libs mem_db POST_users (request_of None None cleo)
                 (no_proc, school)))) =
   fst (apiRouter demo_libs mem_db GET_course (request_of None (Some ''1'') no_fields)
          (busy_proc,
           snd (snd (apiRouter demo_libs mem_db POST_users (request_of None None cleo)
                  (no_proc, school)))))"
  by (rule replies_ignore_process_state)

subsection \<open>C10\<close>



end
